theory Spec2Isabelle
  imports Complex_Main "HOL-Library.Word" "HOL-Library.Sublist"
begin

chapter \<open>The model\<close>

section \<open>Errors\<close>

text \<open>
  The Python exceptions that the modelled functions of \<^verbatim>\<open>test/test.py\<close> can raise.
  A function that may raise returns \<open>py_error + 'a\<close>, with \<open>Inl\<close> for the exception.
\<close>

datatype py_error =
    ValueError string
  | ZeroDivisionError
  | OverflowError
  | FileNotFoundError
  | JSONDecodeError
  | KeyError string
  | TypeError
  | AttributeError
  | AssertionError string

section \<open>Raster images and the similarity comparison\<close>

text \<open>
  \<^verbatim>\<open>cv2.imread\<close> returns \<^verbatim>\<open>None\<close> or a numpy array of unsigned bytes with
  \<^verbatim>\<open>shape = (rows, cols, channels)\<close>. An array is its shape and its buffer in row-major
  order: the channels of one pixel are adjacent, the pixels of one row follow each other.
\<close>

record image =
  shape :: "nat \<times> nat \<times> nat"
  buf :: "8 word list"

definition image_ok :: "image \<Rightarrow> bool" where
  "image_ok img = (case shape img of (h, w, c) \<Rightarrow> length (buf img) = h * w * c)"

text \<open>\<^verbatim>\<open>cv2.absdiff\<close> on unsigned bytes, element by element.\<close>

definition absdiff1 :: "8 word \<Rightarrow> 8 word \<Rightarrow> 8 word" where
  "absdiff1 a b = (if a \<le> b then b - a else a - b)"

definition absdiff :: "8 word list \<Rightarrow> 8 word list \<Rightarrow> 8 word list" where
  "absdiff xs ys = map (\<lambda>(a, b). absdiff1 a b) (zip xs ys)"

text \<open>\<^verbatim>\<open>cv2.threshold(src, thresh, maxval, cv2.THRESH_BINARY)\<close>, element by element.\<close>

definition threshold_binary :: "8 word list \<Rightarrow> 8 word \<Rightarrow> 8 word \<Rightarrow> 8 word list" where
  "threshold_binary src thresh maxval = map (\<lambda>v. if thresh < v then maxval else 0) src"

text \<open>\<^verbatim>\<open>np.count_nonzero(arr == 0)\<close>: the number of elements equal to zero.\<close>

definition count_zero :: "8 word list \<Rightarrow> nat" where
  "count_zero arr = length (filter (\<lambda>v. v = 0) arr)"

text \<open>
  Python's \<^verbatim>\<open>float\<close> is the IEEE double. A finite double is modelled by the rational
  number it stands for. \<open>nearest_double\<close> gives, for a rational that is not negative, the
  double nearest to it, a tie going to the even significand: the unit in the last place
  is \<open>2\<close> to the power of the binary exponent minus 52, and below the smallest normal
  number the exponent stays at \<open>-1022\<close>. This is the value of a decimal literal such as
  \<^verbatim>\<open>0.95\<close>.
\<close>

function bit_length :: "int \<Rightarrow> nat" where
  "bit_length n = (if n \<le> 0 then 0 else Suc (bit_length (n div 2)))"
  by pat_completeness auto
termination
  by (relation "measure (\<lambda>n. nat n)") auto

definition two_pow :: "int \<Rightarrow> rat" where
  "two_pow k = (if 0 \<le> k then 2 ^ nat k else 1 / 2 ^ nat (- k))"

definition round_half_even :: "rat \<Rightarrow> int" where
  "round_half_even y =
     (let f = \<lfloor>y\<rfloor>; d = y - of_int f
      in if d < 1 / 2 then f
         else if 1 / 2 < d then f + 1
         else if even f then f else f + 1)"

definition binary_exponent :: "rat \<Rightarrow> int" where
  "binary_exponent x =
     (let (a, b) = quotient_of x;
          d = int (bit_length a) - int (bit_length b)
      in if two_pow d \<le> x then d else d - 1)"

definition nearest_double :: "rat \<Rightarrow> rat" where
  "nearest_double x =
     (if x \<le> 0 then 0
      else
        (let e = max (binary_exponent x) (- 1022);
             q = two_pow (e - 52)
         in of_int (round_half_even (x / q)) * q))"

text \<open>
  Python's \<^verbatim>\<open>a / b\<close> on two integers that are not negative: the double nearest to the
  quotient. Division by zero raises, and so does a quotient that rounds beyond the
  largest double.
\<close>

definition true_divide :: "nat \<Rightarrow> nat \<Rightarrow> py_error + rat" where
  "true_divide a b =
     (if b = 0 then Inl ZeroDivisionError
      else
        (let r = nearest_double (of_nat a / of_nat b)
         in if two_pow 1024 \<le> r then Inl OverflowError else Inr r))"

text \<open>Lines 53 to 59 of \<^verbatim>\<open>compare_images_with_similarity_threshold\<close>.\<close>

definition similarity_ratio :: "image \<Rightarrow> image \<Rightarrow> py_error + rat" where
  "similarity_ratio img1 img2 =
     (let difference = absdiff (buf img1) (buf img2);
          binary_difference = threshold_binary difference 0 255;
          similar_pixels = count_zero binary_difference;
          total_pixels = (case shape img1 of (h, w, c) \<Rightarrow> h * w * c)
      in true_divide similar_pixels total_pixels)"

text \<open>
  \<^verbatim>\<open>compare_images_with_similarity_threshold(img1_path, img2_path, similarity_threshold)\<close>.
  The decoder \<open>imread\<close> is the view of the file system that \<^verbatim>\<open>cv2.imread\<close> gives:
  \<open>None\<close> for a path that does not decode. The threshold is the number that the
  float or integer passed stands for, so that \<^verbatim>\<open>>=\<close> on the two floats is the order
  of the rationals. The call to \<^verbatim>\<open>logging.error\<close> below the threshold does not change
  the returned value and is left out.
\<close>

definition compare_images_with_similarity_threshold ::
  "(string \<Rightarrow> image option) \<Rightarrow> string \<Rightarrow> string \<Rightarrow> rat \<Rightarrow> py_error + bool" where
  "compare_images_with_similarity_threshold imread img1_path img2_path similarity_threshold =
     (case (imread img1_path, imread img2_path) of
        (Some img1, Some img2) \<Rightarrow>
          if shape img1 \<noteq> shape img2 then Inr False
          else (case similarity_ratio img1 img2 of
                  Inl e \<Rightarrow> Inl e
                | Inr r \<Rightarrow> Inr (similarity_threshold \<le> r))
      | _ \<Rightarrow> Inl (ValueError ''One or both images could not be loaded.''))"

text \<open>The default value of the parameter \<^verbatim>\<open>similarity_threshold\<close>, 0.95.\<close>

definition default_similarity_threshold :: rat where
  "default_similarity_threshold = nearest_double (95 / 100)"

text \<open>
  The ratio as the specification words it, for comparison with the code: the number of
  pixels all of whose channels match, over the number of pixels.
\<close>

fun chunks :: "nat \<Rightarrow> nat \<Rightarrow> 'a list \<Rightarrow> 'a list list" where
  "chunks 0 c xs = []"
| "chunks (Suc n) c xs = take c xs # chunks n c (drop c xs)"

definition spec_pixel_ratio :: "image \<Rightarrow> image \<Rightarrow> rat" where
  "spec_pixel_ratio img1 img2 =
     (case shape img1 of (h, w, c) \<Rightarrow>
        of_nat (length (filter (\<lambda>(p, q). p = q)
                  (zip (chunks (h * w) c (buf img1)) (chunks (h * w) c (buf img2)))))
        / of_nat (h * w))"

section \<open>Strings\<close>

text \<open>
  Python's \<^verbatim>\<open>str\<close> is modelled by \<open>string\<close>, one \<open>char\<close> per code point, which
  covers the code points below 256. The control characters are written by their codes.
\<close>

definition NL :: char where "NL = CHR 0x0A"
definition CR :: char where "CR = CHR 0x0D"

text \<open>
  \<^verbatim>\<open>s.find(sub, start)\<close>: the lowest index at or after \<open>start\<close> where \<open>sub\<close> occurs,
  \<open>-1\<close> when there is none.
\<close>

fun find_first :: "string \<Rightarrow> string \<Rightarrow> nat option" where
  "find_first sub [] = (if sub = [] then Some 0 else None)"
| "find_first sub (c # cs) =
     (if prefix sub (c # cs) then Some 0 else map_option Suc (find_first sub cs))"

definition str_find :: "string \<Rightarrow> string \<Rightarrow> nat \<Rightarrow> int" where
  "str_find s sub start =
     (if length s < start then - 1
      else (case find_first sub (drop start s) of
              None \<Rightarrow> - 1
            | Some i \<Rightarrow> int (start + i)))"

text \<open>\<^verbatim>\<open>s.rfind(c)\<close> for a single character: the highest index, or \<open>-1\<close>.\<close>

fun rfind_from :: "char \<Rightarrow> string \<Rightarrow> nat \<Rightarrow> int \<Rightarrow> int" where
  "rfind_from c [] i found = found"
| "rfind_from c (x # xs) i found = rfind_from c xs (Suc i) (if x = c then int i else found)"

definition str_rfind :: "string \<Rightarrow> char \<Rightarrow> int" where
  "str_rfind s c = rfind_from c s 0 (- 1)"

text \<open>\<^verbatim>\<open>s.split(sep)\<close> for a single-character separator: never the empty list.\<close>

fun str_split :: "char \<Rightarrow> string \<Rightarrow> string list" where
  "str_split sep [] = [[]]"
| "str_split sep (c # cs) =
     (if c = sep then [] # str_split sep cs
      else (case str_split sep cs of
              [] \<Rightarrow> [[c]]
            | l # ls \<Rightarrow> (c # l) # ls))"

text \<open>\<^verbatim>\<open>sep.join(parts)\<close>.\<close>

fun str_join :: "string \<Rightarrow> string list \<Rightarrow> string" where
  "str_join sep [] = []"
| "str_join sep [p] = p"
| "str_join sep (p # q # ps) = p @ sep @ str_join sep (q # ps)"

text \<open>
  \<^verbatim>\<open>s.strip()\<close>: removes the leading and trailing characters for which
  \<^verbatim>\<open>str.isspace\<close> holds; below 256 these are the codes 9 to 13, 28 to 32, 133 and 160.
\<close>

definition is_space :: "char \<Rightarrow> bool" where
  "is_space c =
     (let n = of_char c :: nat
      in (9 \<le> n \<and> n \<le> 13) \<or> (28 \<le> n \<and> n \<le> 32) \<or> n = 133 \<or> n = 160)"

definition str_strip :: "string \<Rightarrow> string" where
  "str_strip s = rev (dropWhile is_space (rev (dropWhile is_space s)))"

text \<open>\<^verbatim>\<open>str(n)\<close> for integers, in decimal.\<close>

definition digit_char :: "nat \<Rightarrow> char" where
  "digit_char d = char_of (of_char CHR ''0'' + d)"

function str_of_nat :: "nat \<Rightarrow> string" where
  "str_of_nat n = (if n < 10 then [digit_char n] else str_of_nat (n div 10) @ [digit_char (n mod 10)])"
  by pat_completeness auto
termination
  by (relation "measure (\<lambda>n. n)") auto

definition str_of_int :: "int \<Rightarrow> string" where
  "str_of_int i = (if i < 0 then CHR ''-'' # str_of_nat (nat (- i)) else str_of_nat (nat i))"

section \<open>Paths\<close>

text \<open>
  \<^verbatim>\<open>pathlib.Path\<close> on a POSIX system: the root (empty for a relative path) and the
  segments, where empty segments and \<^verbatim>\<open>.\<close> have been dropped.
\<close>

record path =
  root :: string
  tail :: "string list"

definition Path :: "string \<Rightarrow> path" where
  "Path s =
     \<lparr> root = (if take 1 s = ''/'' then
                 (if take 2 s = ''//'' \<and> take 3 s \<noteq> ''///'' then ''//'' else ''/'')
               else ''''),
       tail = filter (\<lambda>x. x \<noteq> '''' \<and> x \<noteq> ''.'') (str_split CHR ''/'' s) \<rparr>"

text \<open>\<^verbatim>\<open>path.name\<close>: the last segment, empty when there is none.\<close>

definition path_name :: "path \<Rightarrow> string" where
  "path_name p = (if tail p = [] then '''' else last (tail p))"

text \<open>\<^verbatim>\<open>path.parent\<close>: the path without its last segment; itself when it has none.\<close>

definition path_parent :: "path \<Rightarrow> path" where
  "path_parent p = (if tail p = [] then p else p\<lparr>tail := butlast (tail p)\<rparr>)"

text \<open>
  Lines 120 to 126 of \<^verbatim>\<open>run_usdchecker\<close>: the loop \<^verbatim>\<open>for _ in range(2)\<close> that walks to
  the parent and puts its name in front when it is not empty.
\<close>

fun filename_loop :: "nat \<Rightarrow> path \<Rightarrow> string list \<Rightarrow> string list" where
  "filename_loop 0 p filename_parts = filename_parts"
| "filename_loop (Suc n) p filename_parts =
     (let p' = path_parent p
      in filename_loop n p'
           (if path_name p' \<noteq> '''' then path_name p' # filename_parts else filename_parts))"

definition truncated_filename :: "string \<Rightarrow> string" where
  "truncated_filename file =
     (let p = Path file
      in str_join ''/'' (filename_loop 2 p [path_name p]))"

text \<open>\<^verbatim>\<open>os.path.join\<close> of \<^verbatim>\<open>posixpath\<close>, for two arguments and for a list of them.\<close>

definition path_join2 :: "string \<Rightarrow> string \<Rightarrow> string" where
  "path_join2 a b =
     (if take 1 b = ''/'' then b
      else if a = '''' \<or> last a = CHR ''/'' then a @ b
      else a @ ''/'' @ b)"

definition path_join :: "string \<Rightarrow> string list \<Rightarrow> string" where
  "path_join a ps = foldl path_join2 a ps"

text \<open>\<^verbatim>\<open>os.path.basename\<close>, \<^verbatim>\<open>os.path.dirname\<close> and \<^verbatim>\<open>os.path.splitext\<close>.\<close>

definition path_basename :: "string \<Rightarrow> string" where
  "path_basename p = drop (nat (str_rfind p CHR ''/'' + 1)) p"

definition str_rstrip_char :: "char \<Rightarrow> string \<Rightarrow> string" where
  "str_rstrip_char c s = rev (dropWhile (\<lambda>x. x = c) (rev s))"

definition path_dirname :: "string \<Rightarrow> string" where
  "path_dirname p =
     (let i = nat (str_rfind p CHR ''/'' + 1);
          head = take i p
      in if head \<noteq> '''' \<and> head \<noteq> replicate (length head) CHR ''/''
         then str_rstrip_char CHR ''/'' head else head)"

definition path_splitext :: "string \<Rightarrow> string \<times> string" where
  "path_splitext p =
     (let sepIndex = str_rfind p CHR ''/'';
          dotIndex = str_rfind p CHR ''.''
      in if sepIndex < dotIndex \<and>
            list_ex (\<lambda>x. x \<noteq> CHR ''.'')
              (take (nat (dotIndex - (sepIndex + 1))) (drop (nat (sepIndex + 1)) p))
         then (take (nat dotIndex) p, drop (nat dotIndex) p)
         else (p, ''''))"

text \<open>
  \<^verbatim>\<open>os.path.normpath\<close>, \<^verbatim>\<open>os.path.abspath\<close> and \<^verbatim>\<open>os.path.relpath\<close> of
  \<^verbatim>\<open>posixpath\<close>. The current directory, which \<^verbatim>\<open>abspath\<close> reads with
  \<^verbatim>\<open>os.getcwd\<close>, is a parameter.
\<close>

fun normpath_comps :: "bool \<Rightarrow> string list \<Rightarrow> string list \<Rightarrow> string list" where
  "normpath_comps initial_slashes [] new_comps = new_comps"
| "normpath_comps initial_slashes (cmp # comps) new_comps =
     (if cmp = '''' \<or> cmp = ''.'' then normpath_comps initial_slashes comps new_comps
      else if cmp \<noteq> ''..'' \<or> (\<not> initial_slashes \<and> new_comps = [])
              \<or> (new_comps \<noteq> [] \<and> last new_comps = ''..'')
      then normpath_comps initial_slashes comps (new_comps @ [cmp])
      else if new_comps \<noteq> [] then normpath_comps initial_slashes comps (butlast new_comps)
      else normpath_comps initial_slashes comps new_comps)"

definition path_normpath :: "string \<Rightarrow> string" where
  "path_normpath p =
     (if p = '''' then ''.''
      else
        (let initial_slashes =
               (if take 1 p = ''/'' then
                  (if take 2 p = ''//'' \<and> take 3 p \<noteq> ''///'' then 2 else 1)
                else (0::nat));
             comps = normpath_comps (0 < initial_slashes) (str_split CHR ''/'' p) [];
             p' = replicate initial_slashes CHR ''/'' @ str_join ''/'' comps
         in if p' = '''' then ''.'' else p'))"

definition path_abspath :: "string \<Rightarrow> string \<Rightarrow> string" where
  "path_abspath cwd p =
     path_normpath (if take 1 p = ''/'' then p else path_join2 cwd p)"

fun common_prefix_len :: "string list \<Rightarrow> string list \<Rightarrow> nat" where
  "common_prefix_len (x # xs) (y # ys) = (if x = y then Suc (common_prefix_len xs ys) else 0)"
| "common_prefix_len _ _ = 0"

definition path_relpath :: "string \<Rightarrow> string \<Rightarrow> string \<Rightarrow> py_error + string" where
  "path_relpath cwd p start =
     (if p = '''' then Inl (ValueError ''no path specified'')
      else
        (let start_list = filter (\<lambda>x. x \<noteq> '''') (str_split CHR ''/'' (path_abspath cwd start));
             path_list = filter (\<lambda>x. x \<noteq> '''') (str_split CHR ''/'' (path_abspath cwd p));
             i = common_prefix_len start_list path_list;
             rel_list = replicate (length start_list - i) ''..'' @ drop i path_list
         in if rel_list = [] then Inr ''.'' else Inr (str_join ''/'' rel_list)))"

section \<open>JSON values and \<^verbatim>\<open>json.dump\<close>\<close>

text \<open>
  The Python values that the \<^verbatim>\<open>json\<close> module reads and writes. A dictionary is an
  association list in insertion order, with distinct keys; a float is kept as the text
  that \<^verbatim>\<open>float.__repr__\<close> gives for it, which is what \<^verbatim>\<open>json.dump\<close> writes.
\<close>

datatype json =
    JNull
  | JBool bool
  | JInt int
  | JFloat string
  | JStr string
  | JArr "json list"
  | JObj "(string \<times> json) list"

text \<open>
  \<^verbatim>\<open>json.encoder.py_encode_basestring_ascii\<close>: the string between double quotes, with the
  double quote, the backslash and every character outside the range from space to
  \<^verbatim>\<open>~\<close> escaped.
\<close>

definition hex_digit :: "nat \<Rightarrow> char" where
  "hex_digit d = (if d < 10 then digit_char d else char_of (of_char CHR ''a'' + (d - 10)))"

definition escape_char :: "char \<Rightarrow> string" where
  "escape_char c =
     (let n = of_char c :: nat
      in if c = CHR 0x22 then [CHR 0x5C, CHR 0x22]
         else if c = CHR 0x5C then [CHR 0x5C, CHR 0x5C]
         else if c = NL then [CHR 0x5C, CHR ''n'']
         else if c = CR then [CHR 0x5C, CHR ''r'']
         else if c = CHR 0x09 then [CHR 0x5C, CHR ''t'']
         else if c = CHR 0x08 then [CHR 0x5C, CHR ''b'']
         else if c = CHR 0x0C then [CHR 0x5C, CHR ''f'']
         else if 32 \<le> n \<and> n \<le> 126 then [c]
         else [CHR 0x5C, CHR ''u'', CHR ''0'', CHR ''0'', hex_digit (n div 16), hex_digit (n mod 16)])"

definition encode_basestring_ascii :: "string \<Rightarrow> string" where
  "encode_basestring_ascii s = [CHR 0x22] @ concat (map escape_char s) @ [CHR 0x22]"

text \<open>
  \<^verbatim>\<open>json.dump(obj, f, indent=4)\<close>: the text written to the file. With an indent the item
  separator is a comma, the key separator a colon and a space, every item is on a line
  of its own at four spaces per nesting level, and an empty list or dictionary is
  written without a line break.
\<close>

definition newline_indent :: "nat \<Rightarrow> string" where
  "newline_indent level = NL # replicate (4 * level) CHR '' ''"

fun json_encode :: "nat \<Rightarrow> json \<Rightarrow> string" where
  "json_encode level JNull = ''null''"
| "json_encode level (JBool b) = (if b then ''true'' else ''false'')"
| "json_encode level (JInt i) = str_of_int i"
| "json_encode level (JFloat r) = r"
| "json_encode level (JStr s) = encode_basestring_ascii s"
| "json_encode level (JArr lst) =
     (if lst = [] then ''[]''
      else ''['' @ newline_indent (Suc level)
           @ str_join ('','' @ newline_indent (Suc level)) (map (json_encode (Suc level)) lst)
           @ newline_indent level @ '']'')"
| "json_encode level (JObj dct) =
     (if dct = [] then ''{}''
      else ''{'' @ newline_indent (Suc level)
           @ str_join ('','' @ newline_indent (Suc level))
               (map (\<lambda>kv. encode_basestring_ascii (fst kv) @ '': '' @ json_encode (Suc level) (snd kv)) dct)
           @ newline_indent level @ ''}'')"

definition json_dump_indent4 :: "json \<Rightarrow> string" where
  "json_dump_indent4 obj = json_encode 0 obj"

section \<open>The schema check: \<^verbatim>\<open>run_usdchecker\<close>\<close>

text \<open>The dictionary \<^verbatim>\<open>result\<close> that \<^verbatim>\<open>run_usdchecker\<close> builds and returns.\<close>

record DiagnosticResult =
  filename :: string
  pass :: bool
  warnings :: "string list"
  errors :: "string list"

definition result_json :: "DiagnosticResult \<Rightarrow> json" where
  "result_json r =
     JObj [(''filename'', JStr (filename r)),
           (''pass'', JBool (pass r)),
           (''warnings'', JArr (map JStr (warnings r))),
           (''errors'', JArr (map JStr (errors r)))]"

text \<open>Lines 93 to 104: where parsing of the standard output starts.\<close>

definition truncate_stdout :: "string \<Rightarrow> string" where
  "truncate_stdout stdout_str =
     (let total_time_index = str_find stdout_str ''Total time:'' 0
      in if total_time_index \<noteq> - 1 then
           (let newline_after_total_time = str_find stdout_str [NL] (nat total_time_index)
            in if newline_after_total_time \<noteq> - 1
               then drop (nat (newline_after_total_time + 1)) stdout_str
               else stdout_str)
         else
           (let write_layer_index = str_find stdout_str ''Write layer via Sdf API:'' 0
            in if write_layer_index \<noteq> - 1 then
                 (let newline_after_write_layer = str_find stdout_str [NL] (nat write_layer_index)
                  in if newline_after_write_layer \<noteq> - 1
                     then drop (nat (newline_after_write_layer + 1)) stdout_str
                     else stdout_str)
               else stdout_str))"

text \<open>Lines 106 to 132: the two lists of strings and the classification of the lines.\<close>

definition ignorable_errors :: "string list" where
  "ignorable_errors =
     [''Stage does not specify an upAxis.'',
      ''Stage does not specify its linear scale in metersPerUnit.'']"

definition filter_out_strings :: "string list" where
  "filter_out_strings =
     ['''', ''Success!'' @ [CR], ''Failed!'' @ [CR], ''Success!'', ''Failed!'']"

text \<open>\<^verbatim>\<open>all(ignorable not in err for ignorable in ignorable_errors)\<close>.\<close>

definition non_ignorable :: "string \<Rightarrow> bool" where
  "non_ignorable err = list_all (\<lambda>ignorable. \<not> sublist ignorable err) ignorable_errors"

definition diagnose :: "string \<Rightarrow> string \<Rightarrow> string \<Rightarrow> DiagnosticResult" where
  "diagnose file stdout_str0 stderr_str =
     (let stdout_str = truncate_stdout stdout_str0;
          errs = filter (\<lambda>err. err \<notin> set filter_out_strings)
                   (str_split NL (stdout_str @ stderr_str));
          non_ignorable_errors = filter non_ignorable errs
      in \<lparr> filename = truncated_filename file,
           pass = list_all (\<lambda>err. err = ''Success!'' @ [CR] \<or> err = '''') non_ignorable_errors,
           warnings = filter (\<lambda>err. err \<notin> set non_ignorable_errors \<and> err \<noteq> '''') errs,
           errors = non_ignorable_errors \<rparr>)"

text \<open>
  The part of the machine that the harness reads and writes: the text files by path, and
  for every path the array that \<^verbatim>\<open>cv2.imread\<close> decodes from it, if any.
\<close>

record world =
  texts :: "string \<rightharpoonup> string"
  pictures :: "string \<rightharpoonup> image"

text \<open>
  \<^verbatim>\<open>run_usdchecker(file, results_file)\<close>. The validator is an external command:
  \<open>usdchecker\<close> gives the decoded standard output and standard error of its run on a
  file. \<^verbatim>\<open>json.load\<close> is the library's parser \<open>json_loads\<close> applied to the whole text,
  \<open>None\<close> where it raises \<^verbatim>\<open>JSONDecodeError\<close>. A loaded value that is not a list
  has no \<^verbatim>\<open>append\<close>. Opening the results file for writing is taken to succeed.
\<close>

definition run_usdchecker ::
  "(world \<Rightarrow> string \<Rightarrow> string \<times> string) \<Rightarrow> (string \<Rightarrow> json option) \<Rightarrow> world \<Rightarrow> string \<Rightarrow> string
     \<Rightarrow> py_error + (DiagnosticResult \<times> world)" where
  "run_usdchecker usdchecker json_loads w file results_file =
     (let (stdout_str, stderr_str) = usdchecker w file;
          result = diagnose file stdout_str stderr_str;
          existing_results =
            (case texts w results_file of
               None \<Rightarrow> JArr []
             | Some text \<Rightarrow> (case json_loads text of None \<Rightarrow> JArr [] | Some v \<Rightarrow> v))
      in case existing_results of
           JArr rs \<Rightarrow>
             Inr (result,
                  w\<lparr>texts := (texts w)(results_file \<mapsto>
                                 json_dump_indent4 (JArr (rs @ [result_json result])))\<rparr>)
         | _ \<Rightarrow> Inl AttributeError)"

section \<open>Configuration\<close>

text \<open>
  The module constants. \<^verbatim>\<open>DIRECTORY\<close> (the absolute path of the directory of
  \<^verbatim>\<open>test.py\<close>), \<^verbatim>\<open>platform.system()\<close> and the current directory depend on the
  machine and are parameters.
\<close>

record config =
  DIRECTORY :: string
  platform_system :: string
  cwd :: string

definition ASSET_PATH :: "config \<Rightarrow> string" where
  "ASSET_PATH cfg = path_join2 (DIRECTORY cfg) ''assets''"

definition RENDER_OUTPUT_FORMAT :: string where "RENDER_OUTPUT_FORMAT = ''.jpg''"
definition BASELINE_FOLDERNAME :: string where "BASELINE_FOLDERNAME = ''baseline''"
definition OUTPUT_FOLDERNAME :: string where "OUTPUT_FOLDERNAME = ''output''"
definition CONVERTED_SUFFIX :: string where "CONVERTED_SUFFIX = ''_roundtrip''"

section \<open>The baseline comparison: \<^verbatim>\<open>test_usd_checker\<close>\<close>

datatype log_level = INFO | WARNING | ERROR

type_synonym log = "(log_level \<times> string) list"

text \<open>
  The test function returns \<^verbatim>\<open>None\<close> at each of its exits; the model names the exit
  that was taken. An exception, the failed assertion among them, is \<open>Inl\<close>.
\<close>

datatype test_exit =
    SkippedSbsar
  | ConversionFailed
  | InvalidBaseline
  | NoBaseline
  | GatePassed

text \<open>
  Iterating over a text file: the lines, each with its line break, the last one
  possibly without. The text is what Python reads, after its translation of line ends.
\<close>

fun file_lines :: "string \<Rightarrow> string list" where
  "file_lines [] = []"
| "file_lines (c # cs) =
     (if c = NL then [NL] # file_lines cs
      else (case file_lines cs of
              [] \<Rightarrow> [[c]]
            | l # ls \<Rightarrow> (c # l) # ls))"

text \<open>\<^verbatim>\<open>[json.loads(line.strip()) for line in f]\<close>: the first line that fails raises.\<close>

fun read_baseline_lines :: "(string \<Rightarrow> json option) \<Rightarrow> string list \<Rightarrow> py_error + json list" where
  "read_baseline_lines json_loads [] = Inr []"
| "read_baseline_lines json_loads (line # rest) =
     (case json_loads (str_strip line) of
        None \<Rightarrow> Inl JSONDecodeError
      | Some v \<Rightarrow>
          (case read_baseline_lines json_loads rest of
             Inl e \<Rightarrow> Inl e
           | Inr vs \<Rightarrow> Inr (v # vs)))"

text \<open>\<^verbatim>\<open>res[key]\<close> with a string key, \<^verbatim>\<open>d.get(key, default)\<close> and \<^verbatim>\<open>len\<close>.\<close>

fun json_subscript :: "json \<Rightarrow> string \<Rightarrow> py_error + json" where
  "json_subscript (JObj dct) key =
     (case map_of dct key of None \<Rightarrow> Inl (KeyError key) | Some v \<Rightarrow> Inr v)"
| "json_subscript _ key = Inl TypeError"

fun json_get :: "json \<Rightarrow> string \<Rightarrow> json \<Rightarrow> py_error + json" where
  "json_get (JObj dct) key dflt =
     (case map_of dct key of None \<Rightarrow> Inr dflt | Some v \<Rightarrow> Inr v)"
| "json_get _ key dflt = Inl AttributeError"

fun json_len :: "json \<Rightarrow> py_error + nat" where
  "json_len (JArr lst) = Inr (length lst)"
| "json_len (JStr s) = Inr (length s)"
| "json_len (JObj dct) = Inr (length dct)"
| "json_len _ = Inl TypeError"

text \<open>
  \<^verbatim>\<open>next((res for res in baseline_results if res['filename'] == input_path), None)\<close>:
  the first entry whose \<^verbatim>\<open>filename\<close> equals the key; an entry before it that has no
  such field raises.
\<close>

fun find_baseline :: "json list \<Rightarrow> string \<Rightarrow> py_error + json option" where
  "find_baseline [] key = Inr None"
| "find_baseline (res # rest) key =
     (case json_subscript res ''filename'' of
        Inl e \<Rightarrow> Inl e
      | Inr v \<Rightarrow> if v = JStr key then Inr (Some res) else find_baseline rest key)"

text \<open>\<^verbatim>\<open>len(baseline_result.get(key, []))\<close>.\<close>

definition baseline_count :: "json \<Rightarrow> string \<Rightarrow> py_error + nat" where
  "baseline_count baseline_result key =
     (case json_get baseline_result key (JArr []) of
        Inl e \<Rightarrow> Inl e
      | Inr v \<Rightarrow> json_len v)"

text \<open>Lines 349 to 358: the comparison of the counts, with what it logs.\<close>

definition compare_counts :: "DiagnosticResult \<Rightarrow> json \<Rightarrow> log \<times> (py_error + test_exit)" where
  "compare_counts results baseline_result =
     (let current_warnings_count = length (warnings results)
      in case baseline_count baseline_result ''warnings'' of
           Inl e \<Rightarrow> ([], Inl e)
         | Inr baseline_warnings_count \<Rightarrow>
             (let log1 =
                    (if current_warnings_count \<noteq> baseline_warnings_count
                     then [(INFO, ''Warning count changed: '' @ str_of_nat baseline_warnings_count
                                    @ '' -> '' @ str_of_nat current_warnings_count)]
                     else []);
                  current_error_count = length (errors results)
              in case baseline_count baseline_result ''errors'' of
                   Inl e \<Rightarrow> (log1, Inl e)
                 | Inr baseline_error_count \<Rightarrow>
                     (let log2 =
                            log1 @ (if 0 < current_error_count
                                    then [(ERROR, ''Errors still exist: '' @ str_of_nat current_error_count)]
                                    else [])
                      in if current_error_count \<le> baseline_error_count
                         then (log2, Inr GatePassed)
                         else (log2, Inl (AssertionError ''USD Checker errors have increased'')))))"

text \<open>
  \<^verbatim>\<open>test_usd_checker(plugin_name, filename)\<close>. The conversion through the scene
  toolkit is external: \<open>convert\<close> gives its boolean and the machine after it. The
  result is the log, the exit or the exception, and the machine at the end. Creating
  the output directory is taken to succeed.
\<close>

definition test_usd_checker ::
  "config \<Rightarrow> (string \<Rightarrow> string \<Rightarrow> world \<Rightarrow> bool \<times> world) \<Rightarrow> (world \<Rightarrow> string \<Rightarrow> string \<times> string)
     \<Rightarrow> (string \<Rightarrow> json option) \<Rightarrow> world \<Rightarrow> string \<Rightarrow> string
     \<Rightarrow> log \<times> (py_error + test_exit) \<times> world" where
  "test_usd_checker cfg convert usdchecker json_loads w plugin_name fname =
     (if plugin_name = ''sbsar''
      then ([(WARNING, ''Skipping USD Checker test for SBSAR files.'')], Inr SkippedSbsar, w)
      else
        (let input_folder = path_join2 (ASSET_PATH cfg) plugin_name;
             input_path = path_join2 input_folder fname;
             output_folder =
               path_join (DIRECTORY cfg) [OUTPUT_FOLDERNAME, platform_system cfg, plugin_name];
             results_file =
               path_join (DIRECTORY cfg)
                 [OUTPUT_FOLDERNAME, platform_system cfg, plugin_name, ''usd_checker_results.json''];
             baseline_file =
               path_join (DIRECTORY cfg)
                 [BASELINE_FOLDERNAME, platform_system cfg, plugin_name, ''usd_checker_results.json''];
             converted_path =
               path_join2 output_folder (fst (path_splitext fname) @ ''_usdchecked.usd'');
             (converted, w1) = convert input_path converted_path w
         in if converted then
              (case run_usdchecker usdchecker json_loads w1 converted_path results_file of
                 Inl e \<Rightarrow> ([], Inl e, w1)
               | Inr (results, w2) \<Rightarrow>
                   (case texts w2 baseline_file of
                      None \<Rightarrow> ([], Inl FileNotFoundError, w2)
                    | Some text \<Rightarrow>
                        (case read_baseline_lines json_loads (file_lines text) of
                           Inl e \<Rightarrow> ([(ERROR, ''Invalid JSON in baseline file.'')], Inr InvalidBaseline, w2)
                         | Inr baseline_results \<Rightarrow>
                             (case find_baseline baseline_results input_path of
                                Inl e \<Rightarrow> ([], Inl e, w2)
                              | Inr None \<Rightarrow>
                                  ([(WARNING, ''No baseline found for '' @ input_path @ ''.'')],
                                   Inr NoBaseline, w2)
                              | Inr (Some baseline_result) \<Rightarrow>
                                  (case compare_counts results baseline_result of
                                     (lg, r) \<Rightarrow> (lg, r, w2))))))
            else ([], Inr ConversionFailed, w1)))"

section \<open>The render pipeline: \<^verbatim>\<open>process_file\<close>\<close>

text \<open>
  \<^verbatim>\<open>process_file(plugin_name, test_file, generate_baseline, test_type)\<close>. The renderer
  and the conversion are external: \<open>render\<close> gives the machine after the render command,
  \<open>convert\<close> its boolean, which this function ignores, and the machine after it. The
  calls to \<^verbatim>\<open>logging\<close> are left out and creating the output directory is taken to
  succeed. The result is the returned string and the machine at the end.
\<close>

definition process_file ::
  "config \<Rightarrow> (string \<Rightarrow> string \<Rightarrow> world \<Rightarrow> world) \<Rightarrow> (string \<Rightarrow> string \<Rightarrow> world \<Rightarrow> bool \<times> world)
     \<Rightarrow> world \<Rightarrow> string \<Rightarrow> string \<Rightarrow> bool \<Rightarrow> string \<Rightarrow> py_error + (string \<times> world)" where
  "process_file cfg render convert w plugin_name test_file generate_baseline test_type =
     (let input_folder = path_join2 (ASSET_PATH cfg) plugin_name;
          baseline_folder =
            path_join (DIRECTORY cfg) [BASELINE_FOLDERNAME, platform_system cfg, plugin_name];
          output_folder =
            (if generate_baseline
             then path_join (DIRECTORY cfg)
                    [OUTPUT_FOLDERNAME, BASELINE_FOLDERNAME, platform_system cfg, plugin_name]
             else path_join (DIRECTORY cfg) [OUTPUT_FOLDERNAME, platform_system cfg, plugin_name])
      in case path_relpath (cwd cfg) (path_dirname test_file) input_folder of
           Inl e \<Rightarrow> Inl e
         | Inr relative_root \<Rightarrow>
             (let output_path_folder = path_join2 output_folder relative_root;
                  output_path =
                    path_join2 output_path_folder
                      (fst (path_splitext (path_basename test_file)) @ RENDER_OUTPUT_FORMAT)
              in if test_type = ''basic'' then
                   (let w1 = render test_file output_path w
                    in if \<not> generate_baseline then
                         (let baseline_path =
                                path_join baseline_folder
                                  [relative_root,
                                   fst (path_splitext (path_basename test_file)) @ RENDER_OUTPUT_FORMAT]
                          in case compare_images_with_similarity_threshold (pictures w1)
                                    baseline_path output_path default_similarity_threshold of
                               Inl e \<Rightarrow> Inl e
                             | Inr similar \<Rightarrow>
                                 if \<not> similar
                                 then Inr (''Error with basic converted file: '' @ test_file, w1)
                                 else Inr (''Converted: '' @ test_file, w1))
                       else Inr (''Converted: '' @ test_file, w1))
                 else if test_type = ''roundtrip'' then
                   (if plugin_name = ''sbsar''
                    then Inr (''Skipped: SBSAR rountrip is not supported.'', w)
                    else
                      (let (file_name, file_extension) = path_splitext (path_basename test_file);
                           converted_path =
                             path_join2 output_path_folder
                               (file_name @ CONVERTED_SUFFIX @ file_extension);
                           converted_output_path =
                             path_join2 output_path_folder
                               (file_name @ CONVERTED_SUFFIX @ RENDER_OUTPUT_FORMAT);
                           w1 = snd (convert test_file converted_path w);
                           w2 = render converted_path converted_output_path w1
                       in if \<not> generate_baseline then
                            (let converted_baseline_output_path =
                                   path_join2 output_path_folder
                                     (file_name @ CONVERTED_SUFFIX @ RENDER_OUTPUT_FORMAT)
                             in case compare_images_with_similarity_threshold (pictures w2)
                                       converted_baseline_output_path converted_output_path
                                       default_similarity_threshold of
                                  Inl e \<Rightarrow> Inl e
                                | Inr similar \<Rightarrow>
                                    if \<not> similar
                                    then Inr (''Error with roundtrip converted file: '' @ test_file, w2)
                                    else Inr (''Converted: '' @ test_file, w2))
                          else Inr (''Converted: '' @ test_file, w2)))
                 else Inr (''Converted: '' @ test_file, w)))"

section \<open>Concrete inputs\<close>

text \<open>
  Two images of 100 rows, 100 columns and 3 channels that differ in one channel of the
  first pixel only, and a file system view that holds them.
\<close>

definition scenario_img1 :: image where
  "scenario_img1 = \<lparr>shape = (100, 100, 3), buf = 0 # replicate 29999 0\<rparr>"

definition scenario_img2 :: image where
  "scenario_img2 = \<lparr>shape = (100, 100, 3), buf = 1 # replicate 29999 0\<rparr>"

definition scenario_imread :: "string \<rightharpoonup> image" where
  "scenario_imread = [''a.jpg'' \<mapsto> scenario_img1, ''b.jpg'' \<mapsto> scenario_img2]"

text \<open>
  A machine without files, a parser that rejects every text, and validators with a fixed
  output: one allowlisted message; the success scenario; one allowlisted message and one
  other line. The last text has the second marker only.
\<close>

definition quiet_world :: world where
  "quiet_world = \<lparr>texts = Map.empty, pictures = Map.empty\<rparr>"

definition no_json :: "string \<Rightarrow> json option" where
  "no_json s = None"

definition upaxis_checker :: "world \<Rightarrow> string \<Rightarrow> string \<times> string" where
  "upaxis_checker w file = (''Stage does not specify an upAxis.'' @ [NL], '''')"

definition success_checker :: "world \<Rightarrow> string \<Rightarrow> string \<times> string" where
  "success_checker w file = (''Total time: 1s'' @ [NL] @ ''Success!'' @ [CR, NL], '''')"

definition mixed_checker :: "world \<Rightarrow> string \<Rightarrow> string \<times> string" where
  "mixed_checker w file =
     (''Stage does not specify an upAxis.'' @ [NL] @ ''Bad thing'' @ [NL], '''')"

definition fallback_stdout :: string where
  "fallback_stdout = ''junk'' @ [NL] @ ''Write layer via Sdf API: 2'' @ [NL] @ ''tail''"

text \<open>
  Validators whose standard output has lines before the first marker and whose standard
  error is not empty; has the second marker only; has the first marker on a last line
  without a line break.
\<close>

definition preamble_checker :: "world \<Rightarrow> string \<Rightarrow> string \<times> string" where
  "preamble_checker w file =
     (''Loading'' @ [NL] @ ''Total time: 1s'' @ [NL]
        @ ''Stage does not specify an upAxis.'' @ [NL] @ ''Bad thing'' @ [NL],
      ''Oops'' @ [NL])"

definition fallback_checker :: "world \<Rightarrow> string \<Rightarrow> string \<times> string" where
  "fallback_checker w file = (fallback_stdout, '''')"

definition unterminated_checker :: "world \<Rightarrow> string \<Rightarrow> string \<times> string" where
  "unterminated_checker w file = (''Bad thing'' @ [NL] @ ''Total time: 1s'', '''')"

text \<open>
  \<^verbatim>\<open>json.dumps(obj)\<close> without an indent, the text of a value on one line. It is used
  below to write baseline files with one record per line.
\<close>

fun json_dumps :: "json \<Rightarrow> string" where
  "json_dumps JNull = ''null''"
| "json_dumps (JBool b) = (if b then ''true'' else ''false'')"
| "json_dumps (JInt i) = str_of_int i"
| "json_dumps (JFloat r) = r"
| "json_dumps (JStr s) = encode_basestring_ascii s"
| "json_dumps (JArr lst) = ''['' @ str_join '', '' (map json_dumps lst) @ '']''"
| "json_dumps (JObj dct) =
     ''{'' @ str_join '', ''
              (map (\<lambda>kv. encode_basestring_ascii (fst kv) @ '': '' @ json_dumps (snd kv)) dct)
     @ ''}''"

text \<open>
  A parser for the witnesses: it reads the texts that \<^verbatim>\<open>json.dump\<close> and
  \<^verbatim>\<open>json.dumps\<close> write for the listed values, and rejects every other text.
\<close>

definition known_loads :: "json list \<Rightarrow> string \<Rightarrow> json option" where
  "known_loads vals s = find (\<lambda>v. json_dumps v = s \<or> json_dump_indent4 v = s) vals"

text \<open>A results document that holds one record.\<close>

definition prior_record :: DiagnosticResult where
  "prior_record = \<lparr>filename = ''x/y/z.usd'', pass = True, warnings = [], errors = []\<rparr>"

definition prior_world :: world where
  "prior_world =
     \<lparr>texts = [''r.json'' \<mapsto> json_dump_indent4 (JArr [result_json prior_record])],
       pictures = Map.empty\<rparr>"

text \<open>The paths that \<^verbatim>\<open>test_usd_checker\<close> computes, by name.\<close>

definition checker_input_path :: "config \<Rightarrow> string \<Rightarrow> string \<Rightarrow> string" where
  "checker_input_path cfg plugin_name fname =
     path_join2 (path_join2 (ASSET_PATH cfg) plugin_name) fname"

definition checker_converted_path :: "config \<Rightarrow> string \<Rightarrow> string \<Rightarrow> string" where
  "checker_converted_path cfg plugin_name fname =
     path_join2 (path_join (DIRECTORY cfg) [OUTPUT_FOLDERNAME, platform_system cfg, plugin_name])
       (fst (path_splitext fname) @ ''_usdchecked.usd'')"

definition checker_results_file :: "config \<Rightarrow> string \<Rightarrow> string" where
  "checker_results_file cfg plugin_name =
     path_join (DIRECTORY cfg)
       [OUTPUT_FOLDERNAME, platform_system cfg, plugin_name, ''usd_checker_results.json'']"

definition checker_baseline_file :: "config \<Rightarrow> string \<Rightarrow> string" where
  "checker_baseline_file cfg plugin_name =
     path_join (DIRECTORY cfg)
       [BASELINE_FOLDERNAME, platform_system cfg, plugin_name, ''usd_checker_results.json'']"

text \<open>
  A machine for the baseline comparison: the harness lives in \<^verbatim>\<open>/r/test\<close>, the asset is
  \<^verbatim>\<open>/r/test/assets/fbx/cube.fbx\<close>, the conversion succeeds and changes nothing that is
  modelled. The validators report two errors, nothing but the success line, or one error.
\<close>

definition cfg0 :: config where
  "cfg0 = \<lparr>DIRECTORY = ''/r/test'', platform_system = ''Linux'', cwd = ''/r/test''\<rparr>"

definition cube :: string where
  "cube = ''/r/test/assets/fbx/cube.fbx''"

definition always_convert :: "string \<Rightarrow> string \<Rightarrow> world \<Rightarrow> bool \<times> world" where
  "always_convert input_path converted_path w = (True, w)"

definition two_errors_checker :: "world \<Rightarrow> string \<Rightarrow> string \<times> string" where
  "two_errors_checker w file = (''E1'' @ [NL] @ ''E2'' @ [NL], '''')"

definition one_error_checker :: "world \<Rightarrow> string \<Rightarrow> string \<times> string" where
  "one_error_checker w file = (''E9'' @ [NL], '''')"

text \<open>
  Baseline entries with one error and no warning: one under the full path of the asset,
  one under the shortened name that \<^verbatim>\<open>run_usdchecker\<close> gives the converted asset.
  Each baseline file holds one entry on one line.
\<close>

definition entry_full_path :: json where
  "entry_full_path =
     JObj [(''filename'', JStr ''/r/test/assets/fbx/cube.fbx''), (''pass'', JBool False),
           (''warnings'', JArr []), (''errors'', JArr [JStr ''E1''])]"

definition entry_short_name :: json where
  "entry_short_name =
     JObj [(''filename'', JStr ''assets/fbx/cube_usdchecked.usd''), (''pass'', JBool False),
           (''warnings'', JArr []), (''errors'', JArr [JStr ''E1''])]"

text \<open>
  Baseline entries that lack fields: one with a name and no lists, one with lists and no
  name.
\<close>

definition entry_no_lists :: json where
  "entry_no_lists = JObj [(''filename'', JStr ''assets/fbx/cube_usdchecked.usd'')]"

definition entry_no_name :: json where
  "entry_no_name = JObj [(''pass'', JBool True), (''warnings'', JArr []), (''errors'', JArr [])]"

definition baseline_world :: "json \<Rightarrow> world" where
  "baseline_world entry =
     \<lparr>texts = [''/r/test/baseline/Linux/fbx/usd_checker_results.json'' \<mapsto> json_dumps entry @ [NL]],
       pictures = Map.empty\<rparr>"

text \<open>
  The paths that \<^verbatim>\<open>process_file\<close> computes for a round trip in verify mode, by name:
  the folder of the outputs, the converted asset and its rendered image.
\<close>

definition roundtrip_folder :: "config \<Rightarrow> string \<Rightarrow> string \<Rightarrow> string" where
  "roundtrip_folder cfg plugin_name relative_root =
     path_join2 (path_join (DIRECTORY cfg) [OUTPUT_FOLDERNAME, platform_system cfg, plugin_name])
       relative_root"

definition roundtrip_converted_path :: "config \<Rightarrow> string \<Rightarrow> string \<Rightarrow> string \<Rightarrow> string" where
  "roundtrip_converted_path cfg plugin_name relative_root test_file =
     path_join2 (roundtrip_folder cfg plugin_name relative_root)
       (fst (path_splitext (path_basename test_file)) @ CONVERTED_SUFFIX
        @ snd (path_splitext (path_basename test_file)))"

definition roundtrip_output_path :: "config \<Rightarrow> string \<Rightarrow> string \<Rightarrow> string \<Rightarrow> string" where
  "roundtrip_output_path cfg plugin_name relative_root test_file =
     path_join2 (roundtrip_folder cfg plugin_name relative_root)
       (fst (path_splitext (path_basename test_file)) @ CONVERTED_SUFFIX @ RENDER_OUTPUT_FORMAT)"

text \<open>A renderer that writes an image of one pixel to the output path.\<close>

definition tiny_img :: image where
  "tiny_img = \<lparr>shape = (1, 1, 3), buf = [1, 2, 3]\<rparr>"

definition paint_render :: "string \<Rightarrow> string \<Rightarrow> world \<Rightarrow> world" where
  "paint_render file outputfile w = w\<lparr>pictures := (pictures w)(outputfile \<mapsto> tiny_img)\<rparr>"

chapter \<open>Properties\<close>

section \<open>The image comparison\<close>

lemma absdiff1_zero_iff: "absdiff1 a b = 0 \<longleftrightarrow> a = b"
  by (auto simp: absdiff1_def)

lemma count_zero_binary_difference:
  "count_zero (threshold_binary (absdiff xs ys) 0 255)
     = length (filter (\<lambda>(x, y). x = y) (zip xs ys))"
proof -
  have "(\<lambda>v. v = 0) \<circ> (\<lambda>v. if (0::8 word) < v then (255::8 word) else 0) \<circ> (\<lambda>(a, b). absdiff1 a b)
          = (\<lambda>(x, y). x = y)"
    by (rule ext) (auto simp: absdiff1_zero_iff word_greater_zero_iff)
  then show ?thesis
    by (simp add: count_zero_def threshold_binary_def absdiff_def filter_map comp_assoc)
qed

subsection \<open>The quotient of two counts is a double\<close>

lemma round_half_even_le: "of_int (round_half_even y) \<le> y + 1 / 2"
proof -
  let ?f = "\<lfloor>y\<rfloor>"
  have f: "of_int ?f \<le> y" by (rule of_int_floor_le)
  show ?thesis
  proof (cases "y - of_int ?f < 1 / 2")
    case True
    then have "round_half_even y = ?f"
      by (simp add: round_half_even_def Let_def)
    with f show ?thesis by linarith
  next
    case False
    then have "round_half_even y \<le> ?f + 1"
      by (simp add: round_half_even_def Let_def)
    then have "(of_int (round_half_even y) :: rat) \<le> of_int ?f + 1"
      by (metis of_int_1 of_int_add of_int_le_iff)
    with False show ?thesis by linarith
  qed
qed

lemma bit_length_mono: "a \<le> b \<Longrightarrow> bit_length a \<le> bit_length b"
proof (induction b arbitrary: a rule: bit_length.induct)
  case (1 n)
  show ?case
  proof (cases "a \<le> 0")
    case True
    then have "bit_length a = 0" by (subst bit_length.simps) simp
    then show ?thesis by simp
  next
    case False
    with "1.prems" have n: "\<not> n \<le> 0" by simp
    have "a div 2 \<le> n div 2" using "1.prems" by (simp add: zdiv_mono1)
    with "1.IH" n have "bit_length (a div 2) \<le> bit_length (n div 2)" by simp
    moreover have "bit_length a = Suc (bit_length (a div 2))"
      using False by (subst bit_length.simps) simp
    moreover have "bit_length n = Suc (bit_length (n div 2))"
      using n by (subst bit_length.simps) simp
    ultimately show ?thesis by simp
  qed
qed

lemma two_pow_pos: "0 < two_pow k"
  by (simp add: two_pow_def)

lemma two_pow_le_one: "k \<le> 0 \<Longrightarrow> two_pow k \<le> 1"
  by (simp add: two_pow_def divide_le_eq_1)

lemma binary_exponent_le_zero:
  assumes "0 < x" and "x \<le> 1"
  shows "binary_exponent x \<le> 0"
proof -
  obtain a b where q: "quotient_of x = (a, b)" by (cases "quotient_of x")
  then have b: "0 < b" and x: "x = of_int a / of_int b"
    by (simp_all add: quotient_of_denom_pos quotient_of_div)
  from assms(2) b x have "a \<le> b"
    by (simp add: divide_le_eq_1 of_int_le_iff [where 'a = rat])
  then have "bit_length a \<le> bit_length b" by (rule bit_length_mono)
  with q show ?thesis
    by (simp add: binary_exponent_def Let_def)
qed

lemma nearest_double_le:
  assumes "x \<le> 1"
  shows "nearest_double x \<le> 3 / 2"
proof (cases "x \<le> 0")
  case True
  then show ?thesis by (simp add: nearest_double_def)
next
  case False
  then have pos: "0 < x" by simp
  let ?e = "max (binary_exponent x) (- 1022)"
  let ?q = "two_pow (?e - 52)"
  have "?e \<le> 0" using binary_exponent_le_zero [OF pos assms] by simp
  then have q1: "?q \<le> 1" by (intro two_pow_le_one) simp
  have q0: "0 < ?q" by (rule two_pow_pos)
  have "of_int (round_half_even (x / ?q)) * ?q \<le> (x / ?q + 1 / 2) * ?q"
    using round_half_even_le [of "x / ?q"] q0 by (simp add: mult_right_mono)
  also have "\<dots> = x + ?q / 2"
    using q0 by (simp add: field_simps)
  also have "\<dots> \<le> 1 + 1 / 2"
    using assms q1 by simp
  finally show ?thesis
    using False by (simp add: nearest_double_def Let_def)
qed

lemma true_divide_fraction:
  assumes "a \<le> b" and "0 < b"
  shows "true_divide a b = Inr (nearest_double (of_nat a / of_nat b))"
proof -
  have "(of_nat a :: rat) / of_nat b \<le> 1"
    using assms by (simp add: divide_le_eq_1)
  then have "nearest_double (of_nat a / of_nat b) \<le> 3 / 2"
    by (rule nearest_double_le)
  moreover have "(3 / 2 :: rat) < two_pow 1024"
    by (simp add: two_pow_def)
  ultimately have "\<not> two_pow 1024 \<le> nearest_double (of_nat a / of_nat b)"
    by simp
  with assms(2) show ?thesis
    by (simp add: true_divide_def Let_def)
qed

lemma concrete_doubles:
  "nearest_double (29999 / 30000) = 4503449507382917 / 4503599627370496"
  "nearest_double (9999 / 10000) = 4503149267407759 / 4503599627370496"
  "nearest_double (99991 / 100000) = 9006388606808065 / 9007199254740992"
  "nearest_double (95 / 100) = 4278419646001971 / 4503599627370496"
  "nearest_double (19 / 20) = 4278419646001971 / 4503599627370496"
  "nearest_double 1 = 1"
  by code_simp+

lemma similarity_ratio_eq:
  assumes "image_ok a" and "image_ok b"
    and "shape a = (h, w, c)" and "shape b = (h, w, c)" and "0 < h * w * c"
  shows "similarity_ratio a b
           = Inr (nearest_double
                    (of_nat (length (filter (\<lambda>(x, y). x = y) (zip (buf a) (buf b))))
                     / of_nat (h * w * c)))"
proof -
  have "length (filter (\<lambda>(x, y). x = y) (zip (buf a) (buf b))) \<le> length (zip (buf a) (buf b))"
    by (rule length_filter_le)
  also have "\<dots> = h * w * c"
    using assms(1-4) by (simp add: image_ok_def)
  finally show ?thesis
    using assms(3,5) true_divide_fraction [of _ "h * w * c"]
    by (simp add: similarity_ratio_def Let_def count_zero_binary_difference)
qed

lemma matching_plus_differing_aux:
  "length (filter (\<lambda>(x, y). x = y) zs) + length (filter (\<lambda>(x, y). x \<noteq> y) zs) = length zs"
  by (induction zs) auto

lemma matching_plus_differing:
  "length (filter (\<lambda>(x, y). x = y) (zip xs ys)) + length (filter (\<lambda>(x, y). x \<noteq> y) (zip xs ys))
     = min (length xs) (length ys)"
  using matching_plus_differing_aux [of "zip xs ys"] by simp

lemma scenario_facts:
  "scenario_imread ''a.jpg'' = Some scenario_img1"
  "scenario_imread ''b.jpg'' = Some scenario_img2"
  "shape scenario_img1 = (100, 100, 3)"
  "shape scenario_img2 = (100, 100, 3)"
  "image_ok scenario_img1"
  "image_ok scenario_img2"
  "length (filter (\<lambda>(x, y). x \<noteq> y) (zip (buf scenario_img1) (buf scenario_img2))) = 1"
  by (simp_all add: scenario_imread_def scenario_img1_def scenario_img2_def image_ok_def zip_replicate)

lemma chunks_replicate: "chunks n c (replicate (n * c) x) = replicate n (replicate c x)"
proof (induction n)
  case 0
  show ?case by simp
next
  case (Suc n)
  have "drop c (replicate (Suc n * c) x) = replicate (n * c) x" by simp
  moreover have "take c (replicate (Suc n * c) x) = replicate c x" by simp
  ultimately show ?case using Suc by simp
qed

lemma chunks_first_pixel:
  "chunks (Suc n) 3 (p # q # r # replicate (n * 3) x) = [p, q, r] # replicate n [x, x, x]"
proof -
  have "replicate 3 x = [x, x, x]"
    by (simp add: numeral_3_eq_3)
  then show ?thesis
    using chunks_replicate [of n 3 x] by simp
qed

lemma chunks_scenario:
  "chunks 10000 3 (v # replicate 29999 (0::8 word)) = [v, 0, 0] # replicate 9999 [0, 0, 0]"
proof -
  have a: "(10000::nat) = Suc 9999" by simp
  have b: "replicate 29999 (0::8 word) = 0 # 0 # replicate (9999 * 3) 0"
    by (simp add: replicate_Suc[symmetric] del: replicate_Suc)
  show ?thesis
    by (simp only: a b chunks_first_pixel)
qed

lemma scenario_ratio:
  assumes "image_ok a" and "image_ok b"
    and "shape a = (100, 100, 3)" and "shape b = (100, 100, 3)"
    and "length (filter (\<lambda>(x, y). x \<noteq> y) (zip (buf a) (buf b))) = 1"
  shows "similarity_ratio a b = Inr (4503449507382917 / 4503599627370496)"
proof -
  have "length (buf a) = 30000" "length (buf b) = 30000"
    using assms(1-4) by (simp_all add: image_ok_def)
  then have "length (filter (\<lambda>(x, y). x = y) (zip (buf a) (buf b))) = 29999"
    using matching_plus_differing [of "buf a" "buf b"] assms(5) by simp
  then show ?thesis
    using similarity_ratio_eq [OF assms(1-4)] by (simp add: concrete_doubles)
qed

text \<open>
  Claim C1, as the specification states it: the similarity ratio is the number of pixels
  all of whose channels match over the number of pixels, so that two images of
  100 by 100 pixels and 3 channels that differ in one channel of one pixel have the ratio
  9999/10000 and fail at the threshold 0.99991. On the code this is false. For the two
  images below, which differ in one channel of one pixel, the ratio of the
  specification is 9999/10000, but the code computes the double nearest to 29999/30000,
  which is not the double nearest to 9999/10000, and the comparison passes at the
  threshold 0.99991.
\<close>

theorem pixel_ratio_counterexample:
  "image_ok scenario_img1 \<and> image_ok scenario_img2
   \<and> shape scenario_img1 = (100, 100, 3) \<and> shape scenario_img2 = (100, 100, 3)
   \<and> spec_pixel_ratio scenario_img1 scenario_img2 = 9999 / 10000
   \<and> similarity_ratio scenario_img1 scenario_img2 = Inr (nearest_double (29999 / 30000))
   \<and> nearest_double (29999 / 30000) \<noteq> nearest_double (9999 / 10000)
   \<and> compare_images_with_similarity_threshold scenario_imread ''a.jpg'' ''b.jpg''
         (nearest_double (99991 / 100000))
       = Inr True"
proof -
  have s: "spec_pixel_ratio scenario_img1 scenario_img2 = 9999 / 10000"
    by (simp add: spec_pixel_ratio_def scenario_img1_def scenario_img2_def chunks_scenario
        zip_replicate)
  have r: "similarity_ratio scenario_img1 scenario_img2 = Inr (4503449507382917 / 4503599627370496)"
    by (rule scenario_ratio) (rule scenario_facts)+
  have c: "compare_images_with_similarity_threshold scenario_imread ''a.jpg'' ''b.jpg''
             (nearest_double (99991 / 100000)) = Inr True"
    using r by (simp add: compare_images_with_similarity_threshold_def scenario_facts
        concrete_doubles)
  show ?thesis using s r c by (simp add: scenario_facts concrete_doubles)
qed

text \<open>
  Claim C1, amended: for two decodable images of the same shape with at least one
  sample, the similarity ratio is the double nearest to the number of channel samples
  that match exactly over the number of channel samples (rows times columns times
  channels), and the comparison returns whether the threshold is at most that double; a
  pixel that agrees in some channels only counts for each channel that agrees. In
  particular, for two images of 100 by 100 pixels and 3 channels that differ in exactly
  one channel sample, the ratio is the double nearest to 29999/30000 and the comparison
  passes at the threshold 0.95 and at the threshold 0.99991.
\<close>

theorem similarity_ratio_counts_samples:
  assumes "imread p1 = Some a" and "imread p2 = Some b"
    and "image_ok a" and "image_ok b"
    and "shape a = (h, w, c)" and "shape b = (h, w, c)" and "0 < h * w * c"
  shows "similarity_ratio a b
           = Inr (nearest_double
                    (of_nat (length (filter (\<lambda>(x, y). x = y) (zip (buf a) (buf b))))
                     / of_nat (h * w * c)))
         \<and> compare_images_with_similarity_threshold imread p1 p2 t
           = Inr (t \<le> nearest_double
                          (of_nat (length (filter (\<lambda>(x, y). x = y) (zip (buf a) (buf b))))
                           / of_nat (h * w * c)))
         \<and> ((h, w, c) = (100, 100, 3)
              \<and> length (filter (\<lambda>(x, y). x \<noteq> y) (zip (buf a) (buf b))) = 1
            \<longrightarrow> similarity_ratio a b = Inr (nearest_double (29999 / 30000))
                \<and> nearest_double (29999 / 30000) = 4503449507382917 / 4503599627370496
                \<and> compare_images_with_similarity_threshold imread p1 p2 (nearest_double (95 / 100))
                    = Inr True
                \<and> compare_images_with_similarity_threshold imread p1 p2
                      (nearest_double (99991 / 100000))
                    = Inr True)"
proof -
  let ?m = "length (filter (\<lambda>(x, y). x = y) (zip (buf a) (buf b)))"
  have ratio: "similarity_ratio a b = Inr (nearest_double (of_nat ?m / of_nat (h * w * c)))"
    using assms(3-7) by (rule similarity_ratio_eq)
  have cmp: "compare_images_with_similarity_threshold imread p1 p2 s
               = (case similarity_ratio a b of Inl e \<Rightarrow> Inl e | Inr r \<Rightarrow> Inr (s \<le> r))" for s
    using assms(1,2,5,6) by (simp add: compare_images_with_similarity_threshold_def)
  show ?thesis
  proof (intro conjI impI)
    show "similarity_ratio a b = Inr (nearest_double (of_nat ?m / of_nat (h * w * c)))"
      by (rule ratio)
    show "compare_images_with_similarity_threshold imread p1 p2 t
            = Inr (t \<le> nearest_double (of_nat ?m / of_nat (h * w * c)))"
      by (simp add: cmp ratio)
  next
    assume h: "(h, w, c) = (100, 100, 3)
              \<and> length (filter (\<lambda>(x, y). x \<noteq> y) (zip (buf a) (buf b))) = 1"
    then have r: "similarity_ratio a b = Inr (4503449507382917 / 4503599627370496)"
      using assms(3-6) by (intro scenario_ratio) simp_all
    show "similarity_ratio a b = Inr (nearest_double (29999 / 30000))"
      using r by (simp add: concrete_doubles)
    show "nearest_double (29999 / 30000) = 4503449507382917 / 4503599627370496"
      by (rule concrete_doubles)
    show "compare_images_with_similarity_threshold imread p1 p2 (nearest_double (95 / 100))
            = Inr True"
      by (simp add: cmp r concrete_doubles)
    show "compare_images_with_similarity_threshold imread p1 p2 (nearest_double (99991 / 100000))
            = Inr True"
      by (simp add: cmp r concrete_doubles)
  qed
qed

theorem similarity_ratio_counts_samples_witness:
  "similarity_ratio scenario_img1 scenario_img2 = Inr (4503449507382917 / 4503599627370496)
   \<and> compare_images_with_similarity_threshold scenario_imread ''a.jpg'' ''b.jpg''
        (nearest_double (95 / 100)) = Inr True
   \<and> compare_images_with_similarity_threshold scenario_imread ''a.jpg'' ''b.jpg''
        (nearest_double (99991 / 100000)) = Inr True"
proof -
  have "(100::nat, 100::nat, 3::nat) = (100, 100, 3)
        \<and> length (filter (\<lambda>(x, y). x \<noteq> y) (zip (buf scenario_img1) (buf scenario_img2))) = 1"
    by (simp add: scenario_facts)
  moreover have "(0::nat) < 100 * 100 * 3" by simp
  ultimately have "similarity_ratio scenario_img1 scenario_img2
                     = Inr (nearest_double (29999 / 30000))
      \<and> nearest_double (29999 / 30000) = 4503449507382917 / 4503599627370496
      \<and> compare_images_with_similarity_threshold scenario_imread ''a.jpg'' ''b.jpg''
           (nearest_double (95 / 100)) = Inr True
      \<and> compare_images_with_similarity_threshold scenario_imread ''a.jpg'' ''b.jpg''
           (nearest_double (99991 / 100000)) = Inr True"
    using similarity_ratio_counts_samples [of scenario_imread "''a.jpg''" scenario_img1
        "''b.jpg''" scenario_img2 100 100 3 0]
      scenario_facts(1-6)
    by blast
  then show ?thesis by metis
qed

text \<open>
  Claim C7: when at least one of the two paths does not decode as an image, the
  comparison raises the error that says so, whatever the other path, the threshold and
  the rest of the input are.
\<close>

theorem undecodable_image_raises:
  "imread p1 = None \<or> imread p2 = None \<Longrightarrow>
   compare_images_with_similarity_threshold imread p1 p2 t
     = Inl (ValueError ''One or both images could not be loaded.'')"
  by (auto simp: compare_images_with_similarity_threshold_def split: option.splits)

theorem undecodable_image_raises_witness:
  "scenario_imread ''missing.jpg'' = None
   \<and> compare_images_with_similarity_threshold scenario_imread ''a.jpg'' ''missing.jpg'' (95 / 100)
       = Inl (ValueError ''One or both images could not be loaded.'')"
proof -
  have h: "scenario_imread ''missing.jpg'' = None"
    by (simp add: scenario_imread_def)
  then have "scenario_imread ''a.jpg'' = None \<or> scenario_imread ''missing.jpg'' = None" ..
  from undecodable_image_raises [OF this] h show ?thesis by simp
qed

section \<open>The schema check\<close>

lemma find_first_None_iff: "find_first sub s = None \<longleftrightarrow> \<not> sublist sub s"
  by (induction s) (auto simp: sublist_Cons_right)

lemma find_first_Some_prefix:
  "find_first sub s = Some i \<Longrightarrow> i \<le> length s \<and> prefix sub (drop i s)"
proof (induction s arbitrary: i)
  case Nil
  then show ?case by (auto split: if_splits)
next
  case (Cons c cs)
  show ?case
  proof (cases "prefix sub (c # cs)")
    case True
    with Cons.prems show ?thesis by simp
  next
    case False
    with Cons.prems obtain k where "find_first sub cs = Some k" "i = Suc k"
      by auto
    with Cons.IH [of k] show ?thesis by simp
  qed
qed

lemma find_first_Some_least:
  "find_first sub s = Some i \<Longrightarrow> j < i \<Longrightarrow> \<not> prefix sub (drop j s)"
proof (induction s arbitrary: i j)
  case Nil
  then show ?case by (auto split: if_splits)
next
  case (Cons c cs)
  show ?case
  proof (cases "prefix sub (c # cs)")
    case True
    with Cons.prems show ?thesis by simp
  next
    case False
    with Cons.prems obtain k where k: "find_first sub cs = Some k" "i = Suc k"
      by auto
    show ?thesis
    proof (cases j)
      case 0
      with False show ?thesis by simp
    next
      case (Suc j')
      with k Cons.prems(2) Cons.IH [of k j'] show ?thesis by simp
    qed
  qed
qed

lemma find_first_newline:
  "NL \<notin> set xs \<Longrightarrow> find_first [NL] (xs @ NL # post) = Some (length xs)"
  by (induction xs) auto

lemma prefix_before_char:
  "c \<notin> set m \<Longrightarrow> prefix m (xs @ c # rest) \<Longrightarrow> prefix m xs"
  by (auto simp: prefix_append prefix_Cons)

lemma prefix_in_front:
  assumes p: "prefix m (drop i (before @ rest))" and i: "i < length before"
    and b: "last before \<notin> set m"
  shows "sublist m before"
proof -
  from i have "before \<noteq> []" by auto
  then obtain b' where b': "before = b' @ [last before]"
    by (metis append_butlast_last_id)
  with i have "i \<le> length b'"
    by (metis length_append_singleton less_Suc_eq_le)
  then have "drop i (before @ rest) = drop i b' @ last before # rest"
    using b' by (metis append.assoc append_Cons append_Nil drop_append diff_is_0_eq drop0)
  with p b have "prefix m (drop i b')"
    using prefix_before_char by metis
  then have "sublist m b'"
    by (metis append_take_drop_id prefix_def sublist_def)
  then obtain ps ss where "b' = ps @ m @ ss"
    by (auto simp: sublist_def)
  with b' have "before = ps @ m @ (ss @ [last before])"
    by simp
  then show ?thesis
    unfolding sublist_def by blast
qed

lemma sublist_first_occurrence:
  assumes "sublist m line"
  shows "\<exists>k \<le> length line. prefix m (drop k line)"
proof -
  from assms obtain ps ss where "line = ps @ m @ ss"
    by (auto simp: sublist_def)
  then have "prefix m (drop (length ps) line)" "length ps \<le> length line"
    by simp_all
  then show ?thesis by blast
qed

text \<open>The index that \<open>str_find\<close> gives for a marker lies in the first line that holds it.\<close>

lemma marker_line:
  assumes s: "s = before @ line @ rest"
    and b: "before = [] \<or> last before = NL"
    and m: "NL \<notin> set m" and inl: "sublist m line" and nb: "\<not> sublist m before"
  shows "\<exists>i. str_find s m 0 = int i \<and> length before \<le> i \<and> i \<le> length before + length line"
proof -
  from inl obtain k where k: "k \<le> length line" "prefix m (drop k line)"
    using sublist_first_occurrence by blast
  have occ: "prefix m (drop (length before + k) s)"
    using k s by (auto simp: prefix_def)
  have "sublist m s"
    using inl s by (metis sublist_append_leftI sublist_append_rightI sublist_order.order_trans
        sublist_order.order_refl)
  then obtain i where i: "find_first m s = Some i"
    using find_first_None_iff by (metis not_Some_eq)
  have le: "i \<le> length before + k"
    using find_first_Some_least [OF i, of "length before + k"] occ by (meson not_le_imp_less)
  have ge: "length before \<le> i"
  proof (rule ccontr)
    assume "\<not> length before \<le> i"
    then have lt: "i < length before" by simp
    then have "before \<noteq> []" by auto
    with b have "last before = NL" by simp
    with m have "last before \<notin> set m" by simp
    moreover have "prefix m (drop i (before @ (line @ rest)))"
      using find_first_Some_prefix [OF i] s by simp
    ultimately have "sublist m before"
      using lt prefix_in_front by blast
    with nb show False by simp
  qed
  have "str_find s m 0 = int i"
    using i by (simp add: str_find_def)
  with le ge k show ?thesis by auto
qed

lemma cut_after_marker_line:
  assumes s: "s = before @ line @ NL # post"
    and nl: "NL \<notin> set line"
    and i: "length before \<le> i" "i \<le> length before + length line"
  shows "drop (nat (str_find s [NL] i + 1)) s = post"
proof -
  have d: "drop i s = drop (i - length before) line @ NL # post"
    using s i by simp
  have "NL \<notin> set (drop (i - length before) line)"
    using nl by (meson in_set_dropD)
  then have "find_first [NL] (drop i s) = Some (length (drop (i - length before) line))"
    unfolding d by (rule find_first_newline)
  moreover have "i \<le> length s" using s i by simp
  ultimately have "str_find s [NL] i = int (i + (length line - (i - length before)))"
    by (simp add: str_find_def)
  also have "i + (length line - (i - length before)) = length before + length line"
    using i by simp
  finally have "nat (str_find s [NL] i + 1) = Suc (length before + length line)"
    by simp
  then show ?thesis
    using s by simp
qed

lemma run_usdchecker_cases:
  "run_usdchecker u l w f rf = Inl AttributeError
   \<or> (\<exists>w'. run_usdchecker u l w f rf = Inr (diagnose f (fst (u w f)) (snd (u w f)), w'))"
  by (auto simp: run_usdchecker_def Let_def split: prod.splits option.splits json.splits)

lemma cut_at_marker:
  assumes "s = before @ line @ NL # post" "before = [] \<or> last before = NL" "NL \<notin> set line"
    "NL \<notin> set m" "sublist m line" "\<not> sublist m before"
  shows "str_find s m 0 \<noteq> - 1"
    and "str_find s [NL] (nat (str_find s m 0)) \<noteq> - 1"
    and "drop (nat (str_find s [NL] (nat (str_find s m 0)) + 1)) s = post"
proof -
  from marker_line [OF assms(1,2,4,5,6)]
  obtain i where i: "str_find s m 0 = int i" "length before \<le> i"
    "i \<le> length before + length line" by blast
  show "str_find s m 0 \<noteq> - 1" using i(1) by simp
  have "sublist [NL] (drop i s)"
    using assms(1) i(2,3) by (simp add: sublist_def) (metis append_Cons append_Nil)
  then have "find_first [NL] (drop i s) \<noteq> None" by (simp add: find_first_None_iff)
  moreover have "i \<le> length s" using assms(1) i(3) by simp
  ultimately show "str_find s [NL] (nat (str_find s m 0)) \<noteq> - 1"
    using i(1) by (auto simp: str_find_def)
  show "drop (nat (str_find s [NL] (nat (str_find s m 0)) + 1)) s = post"
    using cut_after_marker_line [OF assms(1,3) i(2,3)] i(1) by simp
qed

lemma str_find_absent: "\<not> sublist m s \<Longrightarrow> str_find s m 0 = - 1"
  by (simp add: str_find_def find_first_None_iff [symmetric])

lemma find_first_no_newline: "NL \<notin> set xs \<Longrightarrow> find_first [NL] xs = None"
  by (induction xs) auto

lemma unterminated_marker_line:
  assumes "s = before @ line" "before = [] \<or> last before = NL" "NL \<notin> set line"
    "NL \<notin> set m" "sublist m line" "\<not> sublist m before"
  shows "str_find s m 0 \<noteq> - 1"
    and "str_find s [NL] (nat (str_find s m 0)) = - 1"
proof -
  have "s = before @ line @ []" using assms(1) by simp
  from marker_line [OF this assms(2,4,5,6)]
  obtain i where i: "str_find s m 0 = int i" "length before \<le> i"
    "i \<le> length before + length line" by blast
  show "str_find s m 0 \<noteq> - 1" using i(1) by simp
  have "drop i s = drop (i - length before) line"
    using assms(1) i(2) by simp
  moreover have "NL \<notin> set (drop (i - length before) line)"
    using assms(3) by (meson in_set_dropD)
  ultimately have "find_first [NL] (drop i s) = None"
    by (simp add: find_first_no_newline)
  then show "str_find s [NL] (nat (str_find s m 0)) = - 1"
    using i(1) by (simp add: str_find_def)
qed

lemma diagnose_success:
  "diagnose file (''Total time: 1s'' @ [NL] @ ''Success!'' @ [CR, NL]) ''''
     = \<lparr>filename = truncated_filename file, pass = True, warnings = [], errors = []\<rparr>"
proof -
  have "truncate_stdout (''Total time: 1s'' @ [NL] @ ''Success!'' @ [CR, NL]) = ''Success!'' @ [CR, NL]"
    by (simp add: truncate_stdout_def str_find_def Let_def NL_def CR_def)
  then show ?thesis
    by (simp add: diagnose_def Let_def filter_out_strings_def NL_def CR_def)
qed

text \<open>
  What is kept of the standard output, by cases: the first marker on a line that ends;
  no first marker and the second marker on a line that ends; a marker on the last line,
  which does not end; no marker.
\<close>

lemma truncate_stdout_cases:
  assumes "(stdout_str = before @ line @ NL # kept \<and> (before = [] \<or> last before = NL)
              \<and> NL \<notin> set line
              \<and> sublist ''Total time:'' line \<and> \<not> sublist ''Total time:'' before)
         \<or> (stdout_str = before @ line @ NL # kept \<and> (before = [] \<or> last before = NL)
              \<and> NL \<notin> set line \<and> \<not> sublist ''Total time:'' stdout_str
              \<and> sublist ''Write layer via Sdf API:'' line
              \<and> \<not> sublist ''Write layer via Sdf API:'' before)
         \<or> (kept = stdout_str \<and> stdout_str = before @ line \<and> (before = [] \<or> last before = NL)
              \<and> NL \<notin> set line
              \<and> sublist ''Total time:'' line \<and> \<not> sublist ''Total time:'' before)
         \<or> (kept = stdout_str \<and> stdout_str = before @ line \<and> (before = [] \<or> last before = NL)
              \<and> NL \<notin> set line \<and> \<not> sublist ''Total time:'' stdout_str
              \<and> sublist ''Write layer via Sdf API:'' line
              \<and> \<not> sublist ''Write layer via Sdf API:'' before)
         \<or> (kept = stdout_str \<and> \<not> sublist ''Total time:'' stdout_str
              \<and> \<not> sublist ''Write layer via Sdf API:'' stdout_str)"
  shows "truncate_stdout stdout_str = kept"
proof -
  have tt: "NL \<notin> set ''Total time:''" and wl: "NL \<notin> set ''Write layer via Sdf API:''"
    by (simp_all add: NL_def)
  consider
    (1) "stdout_str = before @ line @ NL # kept" "before = [] \<or> last before = NL"
        "NL \<notin> set line" "sublist ''Total time:'' line" "\<not> sublist ''Total time:'' before"
  | (2) "stdout_str = before @ line @ NL # kept" "before = [] \<or> last before = NL"
        "NL \<notin> set line" "\<not> sublist ''Total time:'' stdout_str"
        "sublist ''Write layer via Sdf API:'' line" "\<not> sublist ''Write layer via Sdf API:'' before"
  | (3) "kept = stdout_str" "stdout_str = before @ line" "before = [] \<or> last before = NL"
        "NL \<notin> set line" "sublist ''Total time:'' line" "\<not> sublist ''Total time:'' before"
  | (4) "kept = stdout_str" "stdout_str = before @ line" "before = [] \<or> last before = NL"
        "NL \<notin> set line" "\<not> sublist ''Total time:'' stdout_str"
        "sublist ''Write layer via Sdf API:'' line" "\<not> sublist ''Write layer via Sdf API:'' before"
  | (5) "kept = stdout_str" "\<not> sublist ''Total time:'' stdout_str"
        "\<not> sublist ''Write layer via Sdf API:'' stdout_str"
    using assms by argo
  then show ?thesis
  proof cases
    case 1
    from cut_at_marker [OF 1(1,2,3) tt 1(4,5)] show ?thesis
      by (simp add: truncate_stdout_def Let_def)
  next
    case 2
    from cut_at_marker [OF 2(1,2,3) wl 2(5,6)] str_find_absent [OF 2(4)] show ?thesis
      by (simp add: truncate_stdout_def Let_def)
  next
    case 3
    from unterminated_marker_line [OF 3(2,3,4) tt 3(5,6)] 3(1) show ?thesis
      by (simp add: truncate_stdout_def Let_def)
  next
    case 4
    from unterminated_marker_line [OF 4(2,3,4) wl 4(6,7)] str_find_absent [OF 4(5)] 4(1)
    show ?thesis
      by (simp add: truncate_stdout_def Let_def)
  next
    case 5
    from str_find_absent [OF 5(2)] str_find_absent [OF 5(3)] 5(1) show ?thesis
      by (simp add: truncate_stdout_def Let_def)
  qed
qed

lemma diagnose_fields:
  assumes "lines = filter (\<lambda>err. err \<notin> set filter_out_strings)
                     (str_split NL (truncate_stdout out @ err))"
  shows "diagnose file out err
           = \<lparr>filename = truncated_filename file,
               pass = (filter non_ignorable lines = []),
               warnings = filter (\<lambda>err. \<not> non_ignorable err) lines,
               errors = filter non_ignorable lines\<rparr>"
proof -
  have no: "e \<noteq> ''Success!'' @ [CR] \<and> e \<noteq> ''''" if "e \<in> set lines" for e
    using that assms by (auto simp: filter_out_strings_def)
  have p: "list_all (\<lambda>err. err = ''Success!'' @ [CR] \<or> err = '''') (filter non_ignorable lines)
             \<longleftrightarrow> filter non_ignorable lines = []"
  proof (cases "filter non_ignorable lines")
    case Nil
    then show ?thesis by simp
  next
    case (Cons e es)
    then have "e \<in> set (filter non_ignorable lines)" by simp
    then have "e \<in> set lines" by simp
    with no Cons show ?thesis by simp
  qed
  have w: "filter (\<lambda>e. e \<notin> set (filter non_ignorable lines) \<and> e \<noteq> '''') lines
             = filter (\<lambda>e. \<not> non_ignorable e) lines"
    by (rule filter_cong) (use no in auto)
  have "diagnose file out err
          = \<lparr>filename = truncated_filename file,
              pass = list_all (\<lambda>err. err = ''Success!'' @ [CR] \<or> err = '''')
                       (filter non_ignorable lines),
              warnings = filter (\<lambda>e. e \<notin> set (filter non_ignorable lines) \<and> e \<noteq> '''') lines,
              errors = filter non_ignorable lines\<rparr>"
    unfolding assms by (simp only: diagnose_def Let_def)
  then show ?thesis
    by (simp only: p w)
qed

text \<open>
  Claim C6: the result of \<^verbatim>\<open>run_usdchecker\<close> is built from the standard output cut
  after the first line that holds \<^verbatim>\<open>Total time:\<close>, that line's line break included;
  when no line holds it, after the first line that holds \<^verbatim>\<open>Write layer via Sdf API:\<close>.
  When the marker is on a last line without a line break, or when there is no marker,
  nothing is cut. The lines of what is kept, followed by the standard error, give the
  lists of the result. For the standard output \<^verbatim>\<open>Total time: 1s\<close>, line break,
  \<^verbatim>\<open>Success!\<close>, carriage return, line break and an empty standard error, the result
  passes and has no warnings and no errors. The only other outcome of the call is the
  missing \<^verbatim>\<open>append\<close> of a results document that is not a list.
\<close>

theorem truncation_at_marker_line:
  assumes "usdchecker w file = (stdout_str, stderr_str)"
    and "(stdout_str = before @ line @ NL # kept \<and> (before = [] \<or> last before = NL)
              \<and> NL \<notin> set line
              \<and> sublist ''Total time:'' line \<and> \<not> sublist ''Total time:'' before)
         \<or> (stdout_str = before @ line @ NL # kept \<and> (before = [] \<or> last before = NL)
              \<and> NL \<notin> set line \<and> \<not> sublist ''Total time:'' stdout_str
              \<and> sublist ''Write layer via Sdf API:'' line
              \<and> \<not> sublist ''Write layer via Sdf API:'' before)
         \<or> (kept = stdout_str \<and> stdout_str = before @ line \<and> (before = [] \<or> last before = NL)
              \<and> NL \<notin> set line
              \<and> sublist ''Total time:'' line \<and> \<not> sublist ''Total time:'' before)
         \<or> (kept = stdout_str \<and> stdout_str = before @ line \<and> (before = [] \<or> last before = NL)
              \<and> NL \<notin> set line \<and> \<not> sublist ''Total time:'' stdout_str
              \<and> sublist ''Write layer via Sdf API:'' line
              \<and> \<not> sublist ''Write layer via Sdf API:'' before)
         \<or> (kept = stdout_str \<and> \<not> sublist ''Total time:'' stdout_str
              \<and> \<not> sublist ''Write layer via Sdf API:'' stdout_str)"
    and "lines = filter (\<lambda>err. err \<notin> set filter_out_strings) (str_split NL (kept @ stderr_str))"
  shows "(run_usdchecker usdchecker json_loads w file results_file = Inl AttributeError
          \<or> (\<exists>w'. run_usdchecker usdchecker json_loads w file results_file
                 = Inr (\<lparr>filename = truncated_filename file,
                          pass = (filter non_ignorable lines = []),
                          warnings = filter (\<lambda>err. \<not> non_ignorable err) lines,
                          errors = filter non_ignorable lines\<rparr>, w')))
         \<and> (stdout_str = ''Total time: 1s'' @ [NL] @ ''Success!'' @ [CR, NL] \<and> stderr_str = ''''
            \<longrightarrow> run_usdchecker usdchecker json_loads w file results_file = Inl AttributeError
                \<or> (\<exists>w'. run_usdchecker usdchecker json_loads w file results_file
                       = Inr (\<lparr>filename = truncated_filename file, pass = True,
                                warnings = [], errors = []\<rparr>, w')))"
proof (intro conjI impI)
  have t: "truncate_stdout stdout_str = kept"
    using assms(2) by (rule truncate_stdout_cases)
  have "diagnose file (fst (usdchecker w file)) (snd (usdchecker w file))
          = \<lparr>filename = truncated_filename file,
              pass = (filter non_ignorable lines = []),
              warnings = filter (\<lambda>err. \<not> non_ignorable err) lines,
              errors = filter non_ignorable lines\<rparr>"
    unfolding assms(1) fst_conv snd_conv
    by (rule diagnose_fields) (simp only: t assms(3))
  then show "run_usdchecker usdchecker json_loads w file results_file = Inl AttributeError
          \<or> (\<exists>w'. run_usdchecker usdchecker json_loads w file results_file
                 = Inr (\<lparr>filename = truncated_filename file,
                          pass = (filter non_ignorable lines = []),
                          warnings = filter (\<lambda>err. \<not> non_ignorable err) lines,
                          errors = filter non_ignorable lines\<rparr>, w'))"
    using run_usdchecker_cases [of usdchecker json_loads w "file" results_file]
    by simp
next
  assume "stdout_str = ''Total time: 1s'' @ [NL] @ ''Success!'' @ [CR, NL] \<and> stderr_str = ''''"
  with assms(1) have "diagnose file (fst (usdchecker w file)) (snd (usdchecker w file))
          = \<lparr>filename = truncated_filename file, pass = True, warnings = [], errors = []\<rparr>"
    using diagnose_success [of "file"] by simp
  then show "run_usdchecker usdchecker json_loads w file results_file = Inl AttributeError
        \<or> (\<exists>w'. run_usdchecker usdchecker json_loads w file results_file
               = Inr (\<lparr>filename = truncated_filename file, pass = True, warnings = [],
                        errors = []\<rparr>, w'))"
    using run_usdchecker_cases [of usdchecker json_loads w "file" results_file]
    by simp
qed

lemma diagnose_errors_non_ignorable:
  "e \<in> set (errors (diagnose file out err)) \<Longrightarrow> ign \<in> set ignorable_errors \<Longrightarrow> \<not> sublist ign e"
  by (auto simp: diagnose_def Let_def non_ignorable_def list_all_iff)

lemma diagnose_warnings:
  "warnings (diagnose file out err)
     = filter (\<lambda>e. \<exists>ign\<in>set ignorable_errors. sublist ign e)
         (filter (\<lambda>e. e \<notin> set filter_out_strings) (str_split NL (truncate_stdout out @ err)))"
proof -
  let ?errs = "filter (\<lambda>e. e \<notin> set filter_out_strings) (str_split NL (truncate_stdout out @ err))"
  have "filter (\<lambda>e. e \<notin> set (filter non_ignorable ?errs) \<and> e \<noteq> '''') ?errs
          = filter (\<lambda>e. \<exists>ign\<in>set ignorable_errors. sublist ign e) ?errs"
    by (rule filter_cong) (auto simp: non_ignorable_def list_all_iff filter_out_strings_def)
  moreover have "warnings (diagnose file out err)
      = filter (\<lambda>e. e \<notin> set (filter non_ignorable ?errs) \<and> e \<noteq> '''') ?errs"
    by (simp only: diagnose_def Let_def DiagnosticResult.select_convs)
  ultimately show ?thesis
    by (simp only:)
qed

text \<open>
  Claim C5, amended: a line that holds an allowlisted message is never in the list of
  errors; it is not dropped but reported in the list of warnings, which holds exactly
  the lines, after the cut and without the empty and the sentinel lines, that hold an
  allowlisted message.
\<close>

theorem ignorable_lines_become_warnings:
  "run_usdchecker usdchecker json_loads w file results_file = Inl AttributeError
   \<or> (\<exists>r w'. run_usdchecker usdchecker json_loads w file results_file = Inr (r, w')
        \<and> (\<forall>e\<in>set (errors r). \<forall>ign\<in>set ignorable_errors. \<not> sublist ign e)
        \<and> warnings r
            = filter (\<lambda>e. \<exists>ign\<in>set ignorable_errors. sublist ign e)
                (filter (\<lambda>e. e \<notin> set filter_out_strings)
                   (str_split NL (truncate_stdout (fst (usdchecker w file))
                                    @ snd (usdchecker w file)))))"
  using run_usdchecker_cases [of usdchecker json_loads w "file" results_file]
    diagnose_errors_non_ignorable [of _ "file" "fst (usdchecker w file)" "snd (usdchecker w file)"]
    diagnose_warnings [of "file" "fst (usdchecker w file)" "snd (usdchecker w file)"]
  by blast

lemma mixed_run:
  "run_usdchecker mixed_checker no_json quiet_world ''/a/b/c/d.usd'' ''r.json''
     = Inr (\<lparr>filename = ''b/c/d.usd'', pass = False,
             warnings = [''Stage does not specify an upAxis.''], errors = [''Bad thing'']\<rparr>,
            quiet_world\<lparr>texts := (texts quiet_world)(''r.json'' \<mapsto>
              json_dump_indent4 (JArr [result_json \<lparr>filename = ''b/c/d.usd'', pass = False,
                warnings = [''Stage does not specify an upAxis.''], errors = [''Bad thing'']\<rparr>]))\<rparr>)"
proof -
  have "diagnose ''/a/b/c/d.usd'' (''Stage does not specify an upAxis.'' @ [NL] @ ''Bad thing'' @ [NL]) ''''
      = \<lparr>filename = ''b/c/d.usd'', pass = False,
             warnings = [''Stage does not specify an upAxis.''], errors = [''Bad thing'']\<rparr>"
    by code_simp
  then show ?thesis
    by (simp add: run_usdchecker_def mixed_checker_def no_json_def quiet_world_def Let_def)
qed

theorem ignorable_lines_become_warnings_witness:
  "\<exists>r w'. run_usdchecker mixed_checker no_json quiet_world ''/a/b/c/d.usd'' ''r.json'' = Inr (r, w')
      \<and> errors r = [''Bad thing''] \<and> warnings r = [''Stage does not specify an upAxis.'']
      \<and> (\<forall>e\<in>set (errors r). \<forall>ign\<in>set ignorable_errors. \<not> sublist ign e)"
  using ignorable_lines_become_warnings [of mixed_checker no_json quiet_world "''/a/b/c/d.usd''" "''r.json''"]
  by (auto simp: mixed_run)

text \<open>
  Claim C5, as the specification states it: a line that matches the allowlist is in
  neither list. On the code this is false: for a standard output that is the allowlisted
  message about the up axis on one line, that line is the one warning of the result.
\<close>

theorem ignorable_line_in_warnings_counterexample:
  "''Stage does not specify an upAxis.'' \<in> set ignorable_errors
   \<and> map_sum id fst (run_usdchecker upaxis_checker no_json quiet_world ''/a/b/c/d.usd'' ''r.json'')
       = Inr \<lparr>filename = ''b/c/d.usd'', pass = True,
               warnings = [''Stage does not specify an upAxis.''], errors = []\<rparr>"
  by code_simp

lemma run_usdchecker_fresh:
  "texts w rf = None \<Longrightarrow>
   run_usdchecker u l w f rf
     = Inr (diagnose f (fst (u w f)) (snd (u w f)),
            w\<lparr>texts := (texts w)(rf \<mapsto>
                 json_dump_indent4 (JArr [result_json (diagnose f (fst (u w f)) (snd (u w f)))]))\<rparr>)"
  by (simp add: run_usdchecker_def Let_def split: prod.splits)

theorem truncation_at_marker_line_witness:
  "(\<exists>w'. run_usdchecker success_checker no_json quiet_world ''/a/b/c/d.usd'' ''r.json''
          = Inr (\<lparr>filename = ''b/c/d.usd'', pass = True, warnings = [], errors = []\<rparr>, w'))
   \<and> (\<exists>w'. run_usdchecker preamble_checker no_json quiet_world ''/a/b/c/d.usd'' ''r.json''
          = Inr (\<lparr>filename = ''b/c/d.usd'', pass = False,
                   warnings = [''Stage does not specify an upAxis.''],
                   errors = [''Bad thing'', ''Oops'']\<rparr>, w'))
   \<and> (\<exists>w'. run_usdchecker fallback_checker no_json quiet_world ''/a/b/c/d.usd'' ''r.json''
          = Inr (\<lparr>filename = ''b/c/d.usd'', pass = False, warnings = [],
                   errors = [''tail'']\<rparr>, w'))
   \<and> (\<exists>w'. run_usdchecker unterminated_checker no_json quiet_world ''/a/b/c/d.usd'' ''r.json''
          = Inr (\<lparr>filename = ''b/c/d.usd'', pass = False, warnings = [],
                   errors = [''Bad thing'', ''Total time: 1s'']\<rparr>, w'))
   \<and> (\<exists>w'. run_usdchecker mixed_checker no_json quiet_world ''/a/b/c/d.usd'' ''r.json''
          = Inr (\<lparr>filename = ''b/c/d.usd'', pass = False,
                   warnings = [''Stage does not specify an upAxis.''],
                   errors = [''Bad thing'']\<rparr>, w'))"
proof -
  let ?run = "\<lambda>c. run_usdchecker c no_json quiet_world ''/a/b/c/d.usd'' ''r.json''"
  let ?res = "\<lambda>c lines. ?run c = Inl AttributeError
       \<or> (\<exists>w'. ?run c = Inr (\<lparr>filename = truncated_filename ''/a/b/c/d.usd'',
                                pass = (filter non_ignorable lines = []),
                                warnings = filter (\<lambda>err. \<not> non_ignorable err) lines,
                                errors = filter non_ignorable lines\<rparr>, w'))"
  have e: "?run c \<noteq> Inl AttributeError" for c
    by (simp add: run_usdchecker_fresh quiet_world_def)
  have f: "truncated_filename ''/a/b/c/d.usd'' = ''b/c/d.usd''" by code_simp
  have n: "NL \<notin> set ''Total time: 1s''" "NL \<notin> set ''Write layer via Sdf API: 2''"
    by (simp_all add: NL_def)
  have s: "sublist ''Total time:'' ''Total time: 1s''"
    "\<not> sublist ''Total time:'' []"
    "\<not> sublist ''Total time:'' (''Loading'' @ [NL])"
    "\<not> sublist ''Total time:'' (''Bad thing'' @ [NL])"
    "\<not> sublist ''Total time:'' fallback_stdout"
    "sublist ''Write layer via Sdf API:'' ''Write layer via Sdf API: 2''"
    "\<not> sublist ''Write layer via Sdf API:'' (''junk'' @ [NL])"
    "\<not> sublist ''Total time:''
         (''Stage does not specify an upAxis.'' @ [NL] @ ''Bad thing'' @ [NL])"
    "\<not> sublist ''Write layer via Sdf API:''
         (''Stage does not specify an upAxis.'' @ [NL] @ ''Bad thing'' @ [NL])"
    by code_simp+
  have l: "[] = filter (\<lambda>err. err \<notin> set filter_out_strings)
                  (str_split NL ((''Success!'' @ [CR, NL]) @ ''''))"
    "[''Stage does not specify an upAxis.'', ''Bad thing'', ''Oops'']
       = filter (\<lambda>err. err \<notin> set filter_out_strings)
           (str_split NL ((''Stage does not specify an upAxis.'' @ [NL] @ ''Bad thing'' @ [NL])
                          @ (''Oops'' @ [NL])))"
    "[''tail''] = filter (\<lambda>err. err \<notin> set filter_out_strings) (str_split NL (''tail'' @ ''''))"
    "[''Bad thing'', ''Total time: 1s'']
       = filter (\<lambda>err. err \<notin> set filter_out_strings)
           (str_split NL ((''Bad thing'' @ [NL] @ ''Total time: 1s'') @ ''''))"
    "[''Stage does not specify an upAxis.'', ''Bad thing'']
       = filter (\<lambda>err. err \<notin> set filter_out_strings)
           (str_split NL ((''Stage does not specify an upAxis.'' @ [NL] @ ''Bad thing'' @ [NL])
                          @ ''''))"
    by code_simp+
  have g: "filter non_ignorable [''Stage does not specify an upAxis.'', ''Bad thing'', ''Oops'']
             = [''Bad thing'', ''Oops'']"
    "filter (\<lambda>err. \<not> non_ignorable err)
        [''Stage does not specify an upAxis.'', ''Bad thing'', ''Oops'']
       = [''Stage does not specify an upAxis.'']"
    "filter non_ignorable [''tail''] = [''tail'']"
    "filter (\<lambda>err. \<not> non_ignorable err) [''tail''] = []"
    "filter non_ignorable [''Bad thing'', ''Total time: 1s''] = [''Bad thing'', ''Total time: 1s'']"
    "filter (\<lambda>err. \<not> non_ignorable err) [''Bad thing'', ''Total time: 1s''] = []"
    "filter non_ignorable [''Stage does not specify an upAxis.'', ''Bad thing''] = [''Bad thing'']"
    "filter (\<lambda>err. \<not> non_ignorable err) [''Stage does not specify an upAxis.'', ''Bad thing'']
       = [''Stage does not specify an upAxis.'']"
    by code_simp+
  have "?res success_checker []"
    apply (rule truncation_at_marker_line [of success_checker quiet_world "''/a/b/c/d.usd''"
        "''Total time: 1s'' @ [NL] @ ''Success!'' @ [CR, NL]" "''''" "[]" "''Total time: 1s''"
        "''Success!'' @ [CR, NL]" "[]" no_json "''r.json''", THEN conjunct1])
      apply (simp add: success_checker_def)
     apply (rule disjI1)
     apply (intro conjI n s; simp)
    apply (rule l)
    done
  then have 1: "\<exists>w'. ?run success_checker
          = Inr (\<lparr>filename = ''b/c/d.usd'', pass = True, warnings = [], errors = []\<rparr>, w')"
    using e [of success_checker] by (simp add: f)
  have "?res preamble_checker [''Stage does not specify an upAxis.'', ''Bad thing'', ''Oops'']"
    apply (rule truncation_at_marker_line [of preamble_checker quiet_world "''/a/b/c/d.usd''"
        "''Loading'' @ [NL] @ ''Total time: 1s'' @ [NL]
           @ ''Stage does not specify an upAxis.'' @ [NL] @ ''Bad thing'' @ [NL]"
        "''Oops'' @ [NL]" "''Loading'' @ [NL]" "''Total time: 1s''"
        "''Stage does not specify an upAxis.'' @ [NL] @ ''Bad thing'' @ [NL]"
        "[''Stage does not specify an upAxis.'', ''Bad thing'', ''Oops'']" no_json "''r.json''",
        THEN conjunct1])
      apply (simp add: preamble_checker_def)
     apply (rule disjI1)
     apply (intro conjI n s; simp)
    apply (rule l)
    done
  then have 2: "\<exists>w'. ?run preamble_checker
          = Inr (\<lparr>filename = ''b/c/d.usd'', pass = False,
                   warnings = [''Stage does not specify an upAxis.''],
                   errors = [''Bad thing'', ''Oops'']\<rparr>, w')"
    using e [of preamble_checker] unfolding f g by simp
  have "?res fallback_checker [''tail'']"
    apply (rule truncation_at_marker_line [of fallback_checker quiet_world "''/a/b/c/d.usd''"
        fallback_stdout "''''" "''junk'' @ [NL]" "''Write layer via Sdf API: 2''" "''tail''"
        "[''tail'']" no_json "''r.json''", THEN conjunct1])
      apply (simp add: fallback_checker_def)
     apply (rule disjI2)
     apply (rule disjI1)
     apply (intro conjI n s; simp add: fallback_stdout_def)
    apply (rule l)
    done
  then have 3: "\<exists>w'. ?run fallback_checker
          = Inr (\<lparr>filename = ''b/c/d.usd'', pass = False, warnings = [],
                   errors = [''tail'']\<rparr>, w')"
    using e [of fallback_checker] unfolding f g by simp
  have "?res unterminated_checker [''Bad thing'', ''Total time: 1s'']"
    apply (rule truncation_at_marker_line [of unterminated_checker quiet_world "''/a/b/c/d.usd''"
        "''Bad thing'' @ [NL] @ ''Total time: 1s''" "''''" "''Bad thing'' @ [NL]"
        "''Total time: 1s''" "''Bad thing'' @ [NL] @ ''Total time: 1s''"
        "[''Bad thing'', ''Total time: 1s'']" no_json "''r.json''", THEN conjunct1])
      apply (simp add: unterminated_checker_def)
     apply (rule disjI2)
     apply (rule disjI2)
     apply (rule disjI1)
     apply (intro conjI n s; simp)
    apply (rule l)
    done
  then have 4: "\<exists>w'. ?run unterminated_checker
          = Inr (\<lparr>filename = ''b/c/d.usd'', pass = False, warnings = [],
                   errors = [''Bad thing'', ''Total time: 1s'']\<rparr>, w')"
    using e [of unterminated_checker] unfolding f g by simp
  have "?res mixed_checker [''Stage does not specify an upAxis.'', ''Bad thing'']"
    apply (rule truncation_at_marker_line [of mixed_checker quiet_world "''/a/b/c/d.usd''"
        "''Stage does not specify an upAxis.'' @ [NL] @ ''Bad thing'' @ [NL]" "''''" "[]" "[]"
        "''Stage does not specify an upAxis.'' @ [NL] @ ''Bad thing'' @ [NL]"
        "[''Stage does not specify an upAxis.'', ''Bad thing'']" no_json "''r.json''",
        THEN conjunct1])
      apply (simp add: mixed_checker_def)
     apply (rule disjI2)
     apply (rule disjI2)
     apply (rule disjI2)
     apply (rule disjI2)
     apply (intro conjI n s; simp)
    apply (rule l)
    done
  then have 5: "\<exists>w'. ?run mixed_checker
          = Inr (\<lparr>filename = ''b/c/d.usd'', pass = False,
                   warnings = [''Stage does not specify an upAxis.''],
                   errors = [''Bad thing'']\<rparr>, w')"
    using e [of mixed_checker] unfolding f g by simp
  from 1 2 3 4 5 show ?thesis by (intro conjI)
qed

section \<open>The results document\<close>

lemma run_usdchecker_appends:
  assumes "texts w results_file = Some text" and "json_loads text = Some (JArr prior)"
  shows "run_usdchecker usdchecker json_loads w file results_file
           = (let r = diagnose file (fst (usdchecker w file)) (snd (usdchecker w file))
              in Inr (r, w\<lparr>texts := (texts w)(results_file \<mapsto>
                                      json_dump_indent4 (JArr (prior @ [result_json r])))\<rparr>))"
  using assms by (simp add: run_usdchecker_def Let_def split: prod.splits)

lemma run_usdchecker_writes:
  assumes "run_usdchecker u l w f rf = Inr (r, w')"
  shows "\<exists>prior. texts w' rf = Some (json_dump_indent4 (JArr (prior @ [result_json r])))"
proof -
  let ?ex = "case texts w rf of None \<Rightarrow> JArr []
             | Some text \<Rightarrow> (case l text of None \<Rightarrow> JArr [] | Some v \<Rightarrow> v)"
  from assms obtain rs where rs: "?ex = JArr rs"
    by (cases ?ex) (auto simp: run_usdchecker_def Let_def split: prod.splits)
  with assms have "texts w' rf = Some (json_dump_indent4 (JArr (rs @ [result_json r])))"
    by (auto simp: run_usdchecker_def Let_def split: prod.splits)
  then show ?thesis ..
qed

lemma dump_first_line:
  "recs \<noteq> [] \<Longrightarrow> \<exists>rest. json_dump_indent4 (JArr recs) = CHR ''['' # NL # rest"
  by (simp add: json_dump_indent4_def newline_indent_def)

lemma file_lines_first:
  "c \<noteq> NL \<Longrightarrow> file_lines (c # NL # rest) = [c, NL] # file_lines rest"
  by simp

lemma strip_bracket_line: "str_strip [CHR ''['', NL] = ''[''"
  by code_simp

lemma read_baseline_lines_length:
  "read_baseline_lines loads ls = Inr vs \<Longrightarrow> length vs = length ls"
  by (induction ls arbitrary: vs) (auto split: option.splits sum.splits)

lemma file_lines_newlines: "length (filter (\<lambda>c. c = NL) s) \<le> length (file_lines s)"
  by (induction s) (auto split: list.splits)

lemma str_join_newlines:
  "1 \<le> length (filter (\<lambda>c. c = NL) sep) \<Longrightarrow>
   length xs - 1 \<le> length (filter (\<lambda>c. c = NL) (str_join sep xs))"
  by (induction sep xs rule: str_join.induct) auto

lemma newline_indent_count: "length (filter (\<lambda>c. c = NL) (newline_indent k)) = 1"
  by (simp add: newline_indent_def NL_def)

lemma dump_newlines:
  assumes "recs \<noteq> []"
  shows "length recs < length (filter (\<lambda>c. c = NL) (json_dump_indent4 (JArr recs)))"
proof -
  let ?sep = "'','' @ newline_indent (Suc 0)"
  let ?J = "str_join ?sep (map (json_encode (Suc 0)) recs)"
  have "1 \<le> length (filter (\<lambda>c. c = NL) ?sep)"
    by (simp add: newline_indent_count)
  then have "length (map (json_encode (Suc 0)) recs) - 1 \<le> length (filter (\<lambda>c. c = NL) ?J)"
    by (rule str_join_newlines)
  then have j: "length recs - 1 \<le> length (filter (\<lambda>c. c = NL) ?J)"
    by simp
  have "json_dump_indent4 (JArr recs) = ''['' @ newline_indent (Suc 0) @ ?J @ newline_indent 0 @ '']''"
    using assms by (simp add: json_dump_indent4_def)
  then have "length (filter (\<lambda>c. c = NL) (json_dump_indent4 (JArr recs)))
               = length (filter (\<lambda>c. c = NL) ''['') + 1 + length (filter (\<lambda>c. c = NL) ?J) + 1
                 + length (filter (\<lambda>c. c = NL) '']'')"
    by (simp only: filter_append length_append newline_indent_count)
  with j assms show ?thesis
    by (cases recs) simp_all
qed

lemma per_line_reader_length:
  assumes "recs \<noteq> []"
  shows "read_baseline_lines loads (file_lines (json_dump_indent4 (JArr recs))) \<noteq> Inr recs"
proof
  assume "read_baseline_lines loads (file_lines (json_dump_indent4 (JArr recs))) = Inr recs"
  then have "length recs = length (file_lines (json_dump_indent4 (JArr recs)))"
    by (rule read_baseline_lines_length)
  with dump_newlines [OF assms] file_lines_newlines [of "json_dump_indent4 (JArr recs)"]
  show False by simp
qed

lemma per_line_reader_first_line:
  assumes "recs \<noteq> []" and "loads ''['' = None"
  shows "read_baseline_lines loads (file_lines (json_dump_indent4 (JArr recs))) = Inl JSONDecodeError"
proof -
  from dump_first_line [OF assms(1)] obtain rest
    where "json_dump_indent4 (JArr recs) = CHR ''['' # NL # rest" by blast
  moreover have "CHR ''['' \<noteq> NL" by (simp add: NL_def)
  ultimately have "file_lines (json_dump_indent4 (JArr recs)) = [CHR ''['', NL] # file_lines rest"
    using file_lines_first [of "CHR ''[''" rest] by simp
  then show ?thesis
    using assms(2) by (simp add: strip_bracket_line)
qed

lemma str_join_snoc:
  "ps \<noteq> [] \<Longrightarrow> str_join sep (ps @ [p]) = str_join sep ps @ sep @ p"
  by (induction sep ps rule: str_join.induct) auto

lemma dump_list_text:
  "recs \<noteq> [] \<Longrightarrow>
   json_dump_indent4 (JArr recs)
     = ''['' @ newline_indent 1 @ str_join ('','' @ newline_indent 1) (map (json_encode 1) recs)
       @ [NL] @ '']''"
  by (simp add: json_dump_indent4_def newline_indent_def)

lemma dump_list_snoc:
  assumes "prior \<noteq> []"
  shows "json_dump_indent4 (JArr (prior @ [v]))
           = take (length (json_dump_indent4 (JArr prior)) - 2) (json_dump_indent4 (JArr prior))
             @ '','' @ newline_indent 1 @ json_encode 1 v @ [NL] @ '']''"
proof -
  let ?body = "''['' @ newline_indent 1
               @ str_join ('','' @ newline_indent 1) (map (json_encode 1) prior)"
  have "json_dump_indent4 (JArr prior) = ?body @ [NL, CHR '']'']"
    using assms by (simp add: dump_list_text)
  then have "take (length (json_dump_indent4 (JArr prior)) - 2) (json_dump_indent4 (JArr prior))
               = ?body"
    by simp
  moreover have "json_dump_indent4 (JArr (prior @ [v]))
                   = ?body @ '','' @ newline_indent 1 @ json_encode 1 v @ [NL] @ '']''"
    using assms by (simp add: dump_list_text str_join_snoc)
  ultimately show ?thesis by simp
qed

text \<open>
  Claim C10: when the results document exists and the parser reads it as a list, the call
  returns the new result and changes no file but the document. The new document is an
  opening bracket, then the texts of the prior records, unchanged and in their order,
  then the text of the one new record, each on lines of its own at one level of
  indentation and separated by commas, then a closing bracket on a line of its own. When
  the old document was itself written by \<^verbatim>\<open>json.dump\<close> with this indentation and held
  a record, the new document is the old one up to its closing line, then a comma, the new
  record and the closing line.
\<close>

theorem append_keeps_prior_records:
  assumes "texts w results_file = Some text" and "json_loads text = Some (JArr prior)"
    and "r = diagnose file (fst (usdchecker w file)) (snd (usdchecker w file))"
    and "doc = ''['' @ newline_indent 1
               @ str_join ('','' @ newline_indent 1)
                   (map (json_encode 1) prior @ [json_encode 1 (result_json r)])
               @ [NL] @ '']''"
  shows "run_usdchecker usdchecker json_loads w file results_file
           = Inr (r, w\<lparr>texts := (texts w)(results_file \<mapsto> doc)\<rparr>)
         \<and> (prior \<noteq> [] \<and> text = json_dump_indent4 (JArr prior)
            \<longrightarrow> doc = take (length text - 2) text
                      @ '','' @ newline_indent 1 @ json_encode 1 (result_json r) @ [NL] @ '']'')"
proof (intro conjI impI)
  have d: "doc = json_dump_indent4 (JArr (prior @ [result_json r]))"
    unfolding assms(4) by (simp add: dump_list_text)
  show "run_usdchecker usdchecker json_loads w file results_file
          = Inr (r, w\<lparr>texts := (texts w)(results_file \<mapsto> doc)\<rparr>)"
    using run_usdchecker_appends [of w results_file "text" json_loads prior usdchecker "file",
        OF assms(1,2)]
    unfolding d assms(3) by (simp add: Let_def)
  assume "prior \<noteq> [] \<and> text = json_dump_indent4 (JArr prior)"
  then show "doc = take (length text - 2) text
                   @ '','' @ newline_indent 1 @ json_encode 1 (result_json r) @ [NL] @ '']''"
    unfolding d by (simp add: dump_list_snoc)
qed

text \<open>
  Claim C3: the document that \<^verbatim>\<open>run_usdchecker\<close> writes is the indented text of one list
  that holds at least the new record. Read line by line, as the baseline comparison
  does, it never gives back the list that was written, whatever the parser does on the
  single lines: it has more lines than records. Its first line is an opening bracket, so
  a parser that rejects that line makes the reader raise the decode error.
\<close>

theorem per_line_reader_rejects_written_document:
  assumes "run_usdchecker usdchecker json_loads w file results_file = Inr (r, w')"
  shows "\<exists>recs. recs \<noteq> [] \<and> last recs = result_json r
           \<and> texts w' results_file = Some (json_dump_indent4 (JArr recs))
           \<and> read_baseline_lines loads (file_lines (json_dump_indent4 (JArr recs))) \<noteq> Inr recs
           \<and> (loads ''['' = None
                \<longrightarrow> read_baseline_lines loads (file_lines (json_dump_indent4 (JArr recs)))
                      = Inl JSONDecodeError)"
proof -
  from run_usdchecker_writes [OF assms] obtain prior
    where p: "texts w' results_file = Some (json_dump_indent4 (JArr (prior @ [result_json r])))"
    by blast
  let ?recs = "prior @ [result_json r]"
  have ne: "?recs \<noteq> []" by simp
  show ?thesis
  proof (intro exI [of _ ?recs] conjI impI)
    show "?recs \<noteq> []" by (rule ne)
    show "last ?recs = result_json r" by simp
    show "texts w' results_file = Some (json_dump_indent4 (JArr ?recs))" by (rule p)
    show "read_baseline_lines loads (file_lines (json_dump_indent4 (JArr ?recs))) \<noteq> Inr ?recs"
      using ne by (rule per_line_reader_length)
    assume "loads ''['' = None"
    with ne show "read_baseline_lines loads (file_lines (json_dump_indent4 (JArr ?recs)))
                    = Inl JSONDecodeError"
      by (rule per_line_reader_first_line)
  qed
qed

theorem append_keeps_prior_records_witness:
  "texts prior_world ''r.json''
     = Some (
        ''['' @ [NL] @ ''    {'' @ [NL] @ ''        '' @ [CHR 0x22] @ ''filename'' @
        [CHR 0x22] @ '': '' @ [CHR 0x22] @ ''x/y/z.usd'' @ [CHR 0x22] @ '','' @ [NL] @
        ''        '' @ [CHR 0x22] @ ''pass'' @ [CHR 0x22] @ '': true,'' @ [NL] @
        ''        '' @ [CHR 0x22] @ ''warnings'' @ [CHR 0x22] @ '': [],'' @ [NL] @
        ''        '' @ [CHR 0x22] @ ''errors'' @ [CHR 0x22] @ '': []'' @ [NL] @ ''    }'' @
        [NL] @ '']'')
   \<and> map_sum id (\<lambda>(r, w'). (r, texts w' ''r.json'', texts w' ''s.json'', pictures w' ''p.png''))
       (run_usdchecker mixed_checker (known_loads [JArr [result_json prior_record]]) prior_world
          ''/a/b/c/d.usd'' ''r.json'')
     = Inr (\<lparr>filename = ''b/c/d.usd'', pass = False,
              warnings = [''Stage does not specify an upAxis.''], errors = [''Bad thing'']\<rparr>,
            Some (
        ''['' @ [NL] @ ''    {'' @ [NL] @ ''        '' @ [CHR 0x22] @ ''filename'' @
        [CHR 0x22] @ '': '' @ [CHR 0x22] @ ''x/y/z.usd'' @ [CHR 0x22] @ '','' @ [NL] @
        ''        '' @ [CHR 0x22] @ ''pass'' @ [CHR 0x22] @ '': true,'' @ [NL] @
        ''        '' @ [CHR 0x22] @ ''warnings'' @ [CHR 0x22] @ '': [],'' @ [NL] @
        ''        '' @ [CHR 0x22] @ ''errors'' @ [CHR 0x22] @ '': []'' @ [NL] @
        ''    },'' @ [NL] @ ''    {'' @ [NL] @ ''        '' @ [CHR 0x22] @ ''filename'' @
        [CHR 0x22] @ '': '' @ [CHR 0x22] @ ''b/c/d.usd'' @ [CHR 0x22] @ '','' @ [NL] @
        ''        '' @ [CHR 0x22] @ ''pass'' @ [CHR 0x22] @ '': false,'' @ [NL] @
        ''        '' @ [CHR 0x22] @ ''warnings'' @ [CHR 0x22] @ '': ['' @ [NL] @
        ''            '' @ [CHR 0x22] @ ''Stage does not specify an upAxis.'' @
        [CHR 0x22] @ [NL] @ ''        ],'' @ [NL] @ ''        '' @ [CHR 0x22] @
        ''errors'' @ [CHR 0x22] @ '': ['' @ [NL] @ ''            '' @ [CHR 0x22] @
        ''Bad thing'' @ [CHR 0x22] @ [NL] @ ''        ]'' @ [NL] @ ''    }'' @ [NL] @ '']''),
            None, None)"
proof -
  let ?r = "\<lparr>filename = ''b/c/d.usd'', pass = False,
             warnings = [''Stage does not specify an upAxis.''], errors = [''Bad thing'']\<rparr>"
  have p: "json_dump_indent4 (JArr [result_json prior_record])
     =
        ''['' @ [NL] @ ''    {'' @ [NL] @ ''        '' @ [CHR 0x22] @ ''filename'' @
        [CHR 0x22] @ '': '' @ [CHR 0x22] @ ''x/y/z.usd'' @ [CHR 0x22] @ '','' @ [NL] @
        ''        '' @ [CHR 0x22] @ ''pass'' @ [CHR 0x22] @ '': true,'' @ [NL] @
        ''        '' @ [CHR 0x22] @ ''warnings'' @ [CHR 0x22] @ '': [],'' @ [NL] @
        ''        '' @ [CHR 0x22] @ ''errors'' @ [CHR 0x22] @ '': []'' @ [NL] @ ''    }'' @
        [NL] @ '']''"
    by code_simp
  have t: "texts prior_world ''r.json'' = Some (json_dump_indent4 (JArr [result_json prior_record]))"
    by (simp add: prior_world_def)
  have l: "known_loads [JArr [result_json prior_record]]
             (json_dump_indent4 (JArr [result_json prior_record]))
           = Some (JArr [result_json prior_record])"
    by (simp add: known_loads_def)
  have d: "?r = diagnose ''/a/b/c/d.usd'' (fst (mixed_checker prior_world ''/a/b/c/d.usd''))
             (snd (mixed_checker prior_world ''/a/b/c/d.usd''))"
    by code_simp
  have a: "
        ''['' @ [NL] @ ''    {'' @ [NL] @ ''        '' @ [CHR 0x22] @ ''filename'' @
        [CHR 0x22] @ '': '' @ [CHR 0x22] @ ''x/y/z.usd'' @ [CHR 0x22] @ '','' @ [NL] @
        ''        '' @ [CHR 0x22] @ ''pass'' @ [CHR 0x22] @ '': true,'' @ [NL] @
        ''        '' @ [CHR 0x22] @ ''warnings'' @ [CHR 0x22] @ '': [],'' @ [NL] @
        ''        '' @ [CHR 0x22] @ ''errors'' @ [CHR 0x22] @ '': []'' @ [NL] @
        ''    },'' @ [NL] @ ''    {'' @ [NL] @ ''        '' @ [CHR 0x22] @ ''filename'' @
        [CHR 0x22] @ '': '' @ [CHR 0x22] @ ''b/c/d.usd'' @ [CHR 0x22] @ '','' @ [NL] @
        ''        '' @ [CHR 0x22] @ ''pass'' @ [CHR 0x22] @ '': false,'' @ [NL] @
        ''        '' @ [CHR 0x22] @ ''warnings'' @ [CHR 0x22] @ '': ['' @ [NL] @
        ''            '' @ [CHR 0x22] @ ''Stage does not specify an upAxis.'' @
        [CHR 0x22] @ [NL] @ ''        ],'' @ [NL] @ ''        '' @ [CHR 0x22] @
        ''errors'' @ [CHR 0x22] @ '': ['' @ [NL] @ ''            '' @ [CHR 0x22] @
        ''Bad thing'' @ [CHR 0x22] @ [NL] @ ''        ]'' @ [NL] @ ''    }'' @ [NL] @ '']''
     = ''['' @ newline_indent 1
       @ str_join ('','' @ newline_indent 1)
           (map (json_encode 1) [result_json prior_record] @ [json_encode 1 (result_json ?r)])
       @ [NL] @ '']''"
    by code_simp
  have o: "texts prior_world ''s.json'' = None" "pictures prior_world ''p.png'' = None"
    by (simp_all add: prior_world_def)
  from append_keeps_prior_records [where json_loads = "known_loads [JArr [result_json prior_record]]"
      and usdchecker = mixed_checker, OF t l d a, THEN conjunct1] t o
  show ?thesis
    unfolding p by simp
qed

lemma success_run:
  "run_usdchecker success_checker no_json quiet_world ''/a/b/c/d.usd'' ''r.json''
     = Inr (\<lparr>filename = ''b/c/d.usd'', pass = True, warnings = [], errors = []\<rparr>,
            quiet_world\<lparr>texts := (texts quiet_world)(''r.json'' \<mapsto>
              json_dump_indent4 (JArr [result_json \<lparr>filename = ''b/c/d.usd'', pass = True,
                warnings = [], errors = []\<rparr>]))\<rparr>)"
proof -
  have "diagnose ''/a/b/c/d.usd'' (''Total time: 1s'' @ [NL] @ ''Success!'' @ [CR, NL]) ''''
      = \<lparr>filename = ''b/c/d.usd'', pass = True, warnings = [], errors = []\<rparr>"
    by code_simp
  then show ?thesis
    by (simp add: run_usdchecker_def success_checker_def no_json_def quiet_world_def Let_def)
qed

theorem per_line_reader_rejects_written_document_witness:
  "\<exists>recs. recs \<noteq> []
      \<and> last recs = result_json \<lparr>filename = ''b/c/d.usd'', pass = True, warnings = [], errors = []\<rparr>
      \<and> read_baseline_lines no_json (file_lines (json_dump_indent4 (JArr recs))) \<noteq> Inr recs
      \<and> read_baseline_lines no_json (file_lines (json_dump_indent4 (JArr recs))) = Inl JSONDecodeError"
  using per_line_reader_rejects_written_document [OF success_run, of no_json]
  by (auto simp: no_json_def)

section \<open>The baseline comparison\<close>

lemma test_usd_checker_after_read:
  assumes "plugin_name \<noteq> ''sbsar''"
    and "convert (checker_input_path cfg plugin_name fname)
           (checker_converted_path cfg plugin_name fname) w = (True, w1)"
    and "run_usdchecker usdchecker json_loads w1 (checker_converted_path cfg plugin_name fname)
           (checker_results_file cfg plugin_name) = Inr (results, w2)"
    and "texts w2 (checker_baseline_file cfg plugin_name) = Some text"
    and "read_baseline_lines json_loads (file_lines text) = Inr baseline_results"
  shows "test_usd_checker cfg convert usdchecker json_loads w plugin_name fname
           = (case find_baseline baseline_results (checker_input_path cfg plugin_name fname) of
                Inl e \<Rightarrow> ([], Inl e, w2)
              | Inr None \<Rightarrow>
                  ([(WARNING, ''No baseline found for ''
                                @ checker_input_path cfg plugin_name fname @ ''.'')],
                   Inr NoBaseline, w2)
              | Inr (Some baseline_result) \<Rightarrow>
                  (case compare_counts results baseline_result of (lg, r) \<Rightarrow> (lg, r, w2)))"
  using assms
  unfolding checker_input_path_def checker_converted_path_def checker_results_file_def
    checker_baseline_file_def test_usd_checker_def
  by (simp add: Let_def)

text \<open>The count that the comparison takes from a baseline entry is the length of its list.\<close>

lemma baseline_count_list:
  assumes "map_of dct key = Some (JArr lst) \<or> (map_of dct key = None \<and> lst = [])"
  shows "baseline_count (JObj dct) key = Inr (length lst)"
  using assms by (auto simp: baseline_count_def)

lemma compare_counts_lists:
  assumes "map_of dct ''warnings'' = Some (JArr baseline_warnings)
           \<or> (map_of dct ''warnings'' = None \<and> baseline_warnings = [])"
    and "map_of dct ''errors'' = Some (JArr baseline_errors)
         \<or> (map_of dct ''errors'' = None \<and> baseline_errors = [])"
  shows "compare_counts results (JObj dct)
           = ((if length (warnings results) \<noteq> length baseline_warnings
               then [(INFO, ''Warning count changed: '' @ str_of_nat (length baseline_warnings)
                              @ '' -> '' @ str_of_nat (length (warnings results)))]
               else [])
              @ (if 0 < length (errors results)
                 then [(ERROR, ''Errors still exist: '' @ str_of_nat (length (errors results)))]
                 else []),
              if length baseline_errors < length (errors results)
              then Inl (AssertionError ''USD Checker errors have increased'')
              else Inr GatePassed)"
  unfolding compare_counts_def baseline_count_list [OF assms(1)] baseline_count_list [OF assms(2)]
  by (simp add: Let_def)

text \<open>
  Claim C2: for every current result and every baseline entry, whose warnings and errors
  are lists (a missing list counts as empty), the comparison of lines 349 to 358 fails
  with the assertion exactly when the current result has more errors than the entry has,
  and passes otherwise, also when it has fewer or as many. A change of the number of
  warnings adds a line to the log and never changes the verdict. Whenever
  \<^verbatim>\<open>test_usd_checker\<close> finds an entry for the current result, this is what it returns.
\<close>

theorem regression_gate:
  assumes "baseline_result = JObj dct"
    and "map_of dct ''warnings'' = Some (JArr baseline_warnings)
         \<or> (map_of dct ''warnings'' = None \<and> baseline_warnings = [])"
    and "map_of dct ''errors'' = Some (JArr baseline_errors)
         \<or> (map_of dct ''errors'' = None \<and> baseline_errors = [])"
  shows "compare_counts results baseline_result
           = ((if length (warnings results) \<noteq> length baseline_warnings
               then [(INFO, ''Warning count changed: '' @ str_of_nat (length baseline_warnings)
                              @ '' -> '' @ str_of_nat (length (warnings results)))]
               else [])
              @ (if 0 < length (errors results)
                 then [(ERROR, ''Errors still exist: '' @ str_of_nat (length (errors results)))]
                 else []),
              if length baseline_errors < length (errors results)
              then Inl (AssertionError ''USD Checker errors have increased'')
              else Inr GatePassed)
         \<and> (plugin_name \<noteq> ''sbsar''
            \<longrightarrow> convert (checker_input_path cfg plugin_name fname)
                  (checker_converted_path cfg plugin_name fname) w = (True, w1)
            \<longrightarrow> run_usdchecker usdchecker json_loads w1
                  (checker_converted_path cfg plugin_name fname)
                  (checker_results_file cfg plugin_name) = Inr (results, w2)
            \<longrightarrow> texts w2 (checker_baseline_file cfg plugin_name) = Some text
            \<longrightarrow> read_baseline_lines json_loads (file_lines text) = Inr baseline_results
            \<longrightarrow> find_baseline baseline_results (checker_input_path cfg plugin_name fname)
                  = Inr (Some baseline_result)
            \<longrightarrow> test_usd_checker cfg convert usdchecker json_loads w plugin_name fname
                  = ((if length (warnings results) \<noteq> length baseline_warnings
                      then [(INFO, ''Warning count changed: ''
                                     @ str_of_nat (length baseline_warnings)
                                     @ '' -> '' @ str_of_nat (length (warnings results)))]
                      else [])
                     @ (if 0 < length (errors results)
                        then [(ERROR, ''Errors still exist: ''
                                        @ str_of_nat (length (errors results)))]
                        else []),
                     if length baseline_errors < length (errors results)
                     then Inl (AssertionError ''USD Checker errors have increased'')
                     else Inr GatePassed,
                     w2))"
proof (intro conjI impI)
  show c: "compare_counts results baseline_result
           = ((if length (warnings results) \<noteq> length baseline_warnings
               then [(INFO, ''Warning count changed: '' @ str_of_nat (length baseline_warnings)
                              @ '' -> '' @ str_of_nat (length (warnings results)))]
               else [])
              @ (if 0 < length (errors results)
                 then [(ERROR, ''Errors still exist: '' @ str_of_nat (length (errors results)))]
                 else []),
              if length baseline_errors < length (errors results)
              then Inl (AssertionError ''USD Checker errors have increased'')
              else Inr GatePassed)"
    unfolding assms(1) using assms(2,3) by (rule compare_counts_lists)
  assume a: "plugin_name \<noteq> ''sbsar''"
    "convert (checker_input_path cfg plugin_name fname)
       (checker_converted_path cfg plugin_name fname) w = (True, w1)"
    "run_usdchecker usdchecker json_loads w1 (checker_converted_path cfg plugin_name fname)
       (checker_results_file cfg plugin_name) = Inr (results, w2)"
    "texts w2 (checker_baseline_file cfg plugin_name) = Some text"
    "read_baseline_lines json_loads (file_lines text) = Inr baseline_results"
  assume f: "find_baseline baseline_results (checker_input_path cfg plugin_name fname)
               = Inr (Some baseline_result)"
  have "test_usd_checker cfg convert usdchecker json_loads w plugin_name fname
          = (case find_baseline baseline_results (checker_input_path cfg plugin_name fname) of
               Inl e \<Rightarrow> ([], Inl e, w2)
             | Inr None \<Rightarrow>
                 ([(WARNING, ''No baseline found for ''
                               @ checker_input_path cfg plugin_name fname @ ''.'')],
                  Inr NoBaseline, w2)
             | Inr (Some baseline_result) \<Rightarrow>
                 (case compare_counts results baseline_result of (lg, r) \<Rightarrow> (lg, r, w2)))"
    using a by (rule test_usd_checker_after_read)
  then show "test_usd_checker cfg convert usdchecker json_loads w plugin_name fname
          = ((if length (warnings results) \<noteq> length baseline_warnings
              then [(INFO, ''Warning count changed: ''
                             @ str_of_nat (length baseline_warnings)
                             @ '' -> '' @ str_of_nat (length (warnings results)))]
              else [])
             @ (if 0 < length (errors results)
                then [(ERROR, ''Errors still exist: ''
                                @ str_of_nat (length (errors results)))]
                else []),
             if length baseline_errors < length (errors results)
             then Inl (AssertionError ''USD Checker errors have increased'')
             else Inr GatePassed,
             w2)"
    using f c by simp
qed

lemma cfg0_paths:
  "checker_input_path cfg0 ''fbx'' cube = ''/r/test/assets/fbx/cube.fbx''"
  "checker_converted_path cfg0 ''fbx'' cube = ''/r/test/assets/fbx/cube_usdchecked.usd''"
  "checker_results_file cfg0 ''fbx'' = ''/r/test/output/Linux/fbx/usd_checker_results.json''"
  "checker_baseline_file cfg0 ''fbx'' = ''/r/test/baseline/Linux/fbx/usd_checker_results.json''"
  by code_simp+

lemma cfg0_run:
  "run_usdchecker u l (baseline_world e) (checker_converted_path cfg0 ''fbx'' cube)
     (checker_results_file cfg0 ''fbx'')
   = Inr (diagnose ''/r/test/assets/fbx/cube_usdchecked.usd''
            (fst (u (baseline_world e) ''/r/test/assets/fbx/cube_usdchecked.usd''))
            (snd (u (baseline_world e) ''/r/test/assets/fbx/cube_usdchecked.usd'')),
          (baseline_world e)\<lparr>texts := (texts (baseline_world e))
            (''/r/test/output/Linux/fbx/usd_checker_results.json'' \<mapsto>
               json_dump_indent4 (JArr [result_json
                 (diagnose ''/r/test/assets/fbx/cube_usdchecked.usd''
                    (fst (u (baseline_world e) ''/r/test/assets/fbx/cube_usdchecked.usd''))
                    (snd (u (baseline_world e) ''/r/test/assets/fbx/cube_usdchecked.usd'')))]))\<rparr>)"
proof -
  have "texts (baseline_world e) ''/r/test/output/Linux/fbx/usd_checker_results.json'' = None"
    by (simp add: baseline_world_def)
  then show ?thesis
    unfolding cfg0_paths by (rule run_usdchecker_fresh)
qed

lemma cfg0_baseline_text:
  "texts ((baseline_world e)\<lparr>texts := (texts (baseline_world e))
            (''/r/test/output/Linux/fbx/usd_checker_results.json'' \<mapsto> doc)\<rparr>)
     (checker_baseline_file cfg0 ''fbx'')
   = Some (json_dumps e @ [NL])"
  by (simp add: cfg0_paths baseline_world_def)

lemma cfg0_convert:
  "always_convert (checker_input_path cfg0 ''fbx'' cube) (checker_converted_path cfg0 ''fbx'' cube)
     (baseline_world e) = (True, baseline_world e)"
  by (simp add: always_convert_def)

lemma concrete_diagnoses:
  "diagnose ''/r/test/assets/fbx/cube_usdchecked.usd''
     (fst (two_errors_checker w ''/r/test/assets/fbx/cube_usdchecked.usd''))
     (snd (two_errors_checker w ''/r/test/assets/fbx/cube_usdchecked.usd''))
   = \<lparr>filename = ''assets/fbx/cube_usdchecked.usd'', pass = False, warnings = [],
       errors = [''E1'', ''E2'']\<rparr>"
  "diagnose ''/r/test/assets/fbx/cube_usdchecked.usd''
     (fst (success_checker w ''/r/test/assets/fbx/cube_usdchecked.usd''))
     (snd (success_checker w ''/r/test/assets/fbx/cube_usdchecked.usd''))
   = \<lparr>filename = ''assets/fbx/cube_usdchecked.usd'', pass = True, warnings = [], errors = []\<rparr>"
  "diagnose ''/r/test/assets/fbx/cube_usdchecked.usd''
     (fst (upaxis_checker w ''/r/test/assets/fbx/cube_usdchecked.usd''))
     (snd (upaxis_checker w ''/r/test/assets/fbx/cube_usdchecked.usd''))
   = \<lparr>filename = ''assets/fbx/cube_usdchecked.usd'', pass = True,
       warnings = [''Stage does not specify an upAxis.''], errors = []\<rparr>"
  "diagnose ''/r/test/assets/fbx/cube_usdchecked.usd''
     (fst (one_error_checker w ''/r/test/assets/fbx/cube_usdchecked.usd''))
     (snd (one_error_checker w ''/r/test/assets/fbx/cube_usdchecked.usd''))
   = \<lparr>filename = ''assets/fbx/cube_usdchecked.usd'', pass = False, warnings = [],
       errors = [''E9'']\<rparr>"
  by code_simp+

lemma concrete_baselines:
  "read_baseline_lines (known_loads [entry_full_path])
     (file_lines (json_dumps entry_full_path @ [NL])) = Inr [entry_full_path]"
  "find_baseline [entry_full_path] (checker_input_path cfg0 ''fbx'' cube) = Inr (Some entry_full_path)"
  by code_simp+

lemma small_digits:
  "digit_char 0 = CHR ''0''" "digit_char (Suc 0) = CHR ''1''" "digit_char (Suc (Suc 0)) = CHR ''2''"
  by code_simp+

theorem regression_gate_witness:
  "test_usd_checker cfg0 always_convert two_errors_checker (known_loads [entry_full_path])
       (baseline_world entry_full_path) ''fbx'' cube
     = ([(ERROR, ''Errors still exist: 2'')],
        Inl (AssertionError ''USD Checker errors have increased''),
        (baseline_world entry_full_path)\<lparr>texts := (texts (baseline_world entry_full_path))
           (''/r/test/output/Linux/fbx/usd_checker_results.json'' \<mapsto>
              json_dump_indent4 (JArr [result_json
                \<lparr>filename = ''assets/fbx/cube_usdchecked.usd'', pass = False, warnings = [],
                  errors = [''E1'', ''E2'']\<rparr>]))\<rparr>)
   \<and> fst (snd (test_usd_checker cfg0 always_convert one_error_checker
                  (known_loads [entry_full_path]) (baseline_world entry_full_path) ''fbx'' cube))
     = Inr GatePassed
   \<and> fst (test_usd_checker cfg0 always_convert one_error_checker (known_loads [entry_full_path])
            (baseline_world entry_full_path) ''fbx'' cube)
     = [(ERROR, ''Errors still exist: 1'')]
   \<and> fst (snd (test_usd_checker cfg0 always_convert success_checker
                  (known_loads [entry_full_path]) (baseline_world entry_full_path) ''fbx'' cube))
     = Inr GatePassed
   \<and> fst (test_usd_checker cfg0 always_convert success_checker (known_loads [entry_full_path])
            (baseline_world entry_full_path) ''fbx'' cube)
     = []
   \<and> fst (snd (test_usd_checker cfg0 always_convert upaxis_checker
                  (known_loads [entry_full_path]) (baseline_world entry_full_path) ''fbx'' cube))
     = Inr GatePassed
   \<and> fst (test_usd_checker cfg0 always_convert upaxis_checker (known_loads [entry_full_path])
            (baseline_world entry_full_path) ''fbx'' cube)
     = [(INFO, ''Warning count changed: 0 -> 1'')]
   \<and> compare_counts
        \<lparr>filename = ''assets/fbx/cube_usdchecked.usd'', pass = False, warnings = [],
          errors = [''E1'', ''E2'']\<rparr> entry_short_name
     = ([(ERROR, ''Errors still exist: 2'')],
        Inl (AssertionError ''USD Checker errors have increased''))
   \<and> compare_counts
        \<lparr>filename = ''assets/fbx/cube_usdchecked.usd'', pass = True, warnings = [],
          errors = []\<rparr> entry_short_name
     = ([], Inr GatePassed)
   \<and> compare_counts
        \<lparr>filename = ''assets/fbx/cube_usdchecked.usd'', pass = False, warnings = [],
          errors = [''E9'']\<rparr> entry_no_lists
     = ([(ERROR, ''Errors still exist: 1'')],
        Inl (AssertionError ''USD Checker errors have increased''))"
proof -
  have n: "''fbx'' \<noteq> ''sbsar''" by simp
  have w: "map_of [(''filename'', JStr ''/r/test/assets/fbx/cube.fbx''), (''pass'', JBool False),
                   (''warnings'', JArr []), (''errors'', JArr [JStr ''E1''])] ''warnings''
             = Some (JArr [])
           \<or> P" for P
    by simp
  have e: "map_of [(''filename'', JStr ''/r/test/assets/fbx/cube.fbx''), (''pass'', JBool False),
                   (''warnings'', JArr []), (''errors'', JArr [JStr ''E1''])] ''errors''
             = Some (JArr [JStr ''E1''])
           \<or> P" for P
    by simp
  note g = regression_gate [where baseline_result = entry_full_path
      and convert = always_convert and cfg = cfg0
      and plugin_name = "''fbx''" and fname = cube and w = "baseline_world entry_full_path"
      and json_loads = "known_loads [entry_full_path]",
      OF entry_full_path_def w e, THEN conjunct2, rule_format,
      OF n cfg0_convert cfg0_run cfg0_baseline_text concrete_baselines(1) concrete_baselines(2)]
  have ws: "map_of [(''filename'', JStr ''assets/fbx/cube_usdchecked.usd''), (''pass'', JBool False),
                    (''warnings'', JArr []), (''errors'', JArr [JStr ''E1''])] ''warnings''
              = Some (JArr [])
            \<or> P" for P
    by simp
  have es: "map_of [(''filename'', JStr ''assets/fbx/cube_usdchecked.usd''), (''pass'', JBool False),
                    (''warnings'', JArr []), (''errors'', JArr [JStr ''E1''])] ''errors''
              = Some (JArr [JStr ''E1''])
            \<or> P" for P
    by simp
  note s = regression_gate [where baseline_result = entry_short_name,
      OF entry_short_name_def ws es, THEN conjunct1]
  have wn: "P \<or> (map_of [(''filename'', JStr ''assets/fbx/cube_usdchecked.usd'')] ''warnings'' = None
                   \<and> ([]::json list) = [])" for P
    by simp
  have en: "P \<or> (map_of [(''filename'', JStr ''assets/fbx/cube_usdchecked.usd'')] ''errors'' = None
                   \<and> ([]::json list) = [])" for P
    by simp
  note m = regression_gate [where baseline_result = entry_no_lists,
      OF entry_no_lists_def wn en, THEN conjunct1]
  show ?thesis
    using g [of two_errors_checker] g [of one_error_checker] g [of success_checker]
      g [of upaxis_checker]
      s [of "\<lparr>filename = ''assets/fbx/cube_usdchecked.usd'', pass = False, warnings = [],
               errors = [''E1'', ''E2'']\<rparr>"]
      s [of "\<lparr>filename = ''assets/fbx/cube_usdchecked.usd'', pass = True, warnings = [],
               errors = []\<rparr>"]
      m [of "\<lparr>filename = ''assets/fbx/cube_usdchecked.usd'', pass = False, warnings = [],
               errors = [''E9'']\<rparr>"]
    by (simp add: concrete_diagnoses small_digits)
qed

text \<open>
  Claim C8: the claim has the comparison skipped whenever the baseline holds no entry
  under the name of the current result. The code looks the baseline up under the full
  input path instead, as for claim C4. Below, the only entry of the baseline is one
  under the full input path, with fewer errors than the current result has: no entry
  has the name of the current result, and the test still compares and fails with the
  assertion. A baseline whose only entry has no \<^verbatim>\<open>filename\<close> holds no entry
  under that name either, and there the lookup itself fails with a \<^verbatim>\<open>KeyError\<close>.
\<close>

theorem missing_result_key_is_compared:
  "map_sum id (filename \<circ> fst)
     (run_usdchecker two_errors_checker (known_loads [entry_full_path])
        (baseline_world entry_full_path) (checker_converted_path cfg0 ''fbx'' cube)
        (checker_results_file cfg0 ''fbx''))
     = Inr ''assets/fbx/cube_usdchecked.usd''
   \<and> read_baseline_lines (known_loads [entry_full_path])
         (file_lines (json_dumps entry_full_path @ [NL])) = Inr [entry_full_path]
   \<and> find_baseline [entry_full_path] ''assets/fbx/cube_usdchecked.usd'' = Inr None
   \<and> fst (test_usd_checker cfg0 always_convert two_errors_checker (known_loads [entry_full_path])
            (baseline_world entry_full_path) ''fbx'' cube)
       = [(ERROR, ''Errors still exist: 2'')]
   \<and> fst (snd (test_usd_checker cfg0 always_convert two_errors_checker
                  (known_loads [entry_full_path]) (baseline_world entry_full_path) ''fbx'' cube))
       = Inl (AssertionError ''USD Checker errors have increased'')
   \<and> read_baseline_lines (known_loads [entry_no_name])
         (file_lines (json_dumps entry_no_name @ [NL])) = Inr [entry_no_name]
   \<and> fst (snd (test_usd_checker cfg0 always_convert two_errors_checker
                  (known_loads [entry_no_name]) (baseline_world entry_no_name) ''fbx'' cube))
       = Inl (KeyError ''filename'')"
  by code_simp

lemma truncated_filename_last_three:
  assumes "tail (Path file) \<noteq> []"
  shows "truncated_filename file
           = str_join ''/'' (drop (length (tail (Path file)) - 3) (tail (Path file)))"
proof -
  let ?ps = "tail (Path file)"
  have ne: "\<forall>x\<in>set ?ps. x \<noteq> ''''"
    by (simp add: Path_def)
  have two: "(2::nat) = Suc (Suc 0)" by simp
  from assms obtain qs c where 1: "?ps = qs @ [c]"
    by (metis rev_exhaust)
  show ?thesis
  proof (cases qs rule: rev_cases)
    case Nil
    with 1 show ?thesis
      by (simp add: truncated_filename_def Let_def two path_name_def path_parent_def)
  next
    case (snoc rs b)
    note 2 = this
    with 1 ne have b: "b \<noteq> ''''" by auto
    show ?thesis
    proof (cases rs rule: rev_cases)
      case Nil
      with 1 2 b show ?thesis
        by (simp add: truncated_filename_def Let_def two path_name_def path_parent_def)
    next
      case (snoc ss a)
      with 1 2 ne have a: "a \<noteq> ''''" by auto
      with 1 2 snoc b show ?thesis
        by (simp add: truncated_filename_def Let_def two path_name_def path_parent_def
            butlast_append)
    qed
  qed
qed

text \<open>
  Claim C4: the name in a result is made of the last three segments of the checked path,
  as the lemma above says, and the claim has the baseline looked up under that name.
  The code looks the baseline up under the full input path instead. Below, the baseline
  holds an entry under the name of the current result, with fewer errors than the
  current result has; the lookup does not find it and the test is skipped.
\<close>

theorem baseline_lookup_uses_full_input_path:
  "map_sum id (filename \<circ> fst)
     (run_usdchecker two_errors_checker (known_loads [entry_short_name])
        (baseline_world entry_short_name) (checker_converted_path cfg0 ''fbx'' cube)
        (checker_results_file cfg0 ''fbx''))
     = Inr ''assets/fbx/cube_usdchecked.usd''
   \<and> read_baseline_lines (known_loads [entry_short_name])
         (file_lines (json_dumps entry_short_name @ [NL])) = Inr [entry_short_name]
   \<and> find_baseline [entry_short_name] ''assets/fbx/cube_usdchecked.usd''
       = Inr (Some entry_short_name)
   \<and> fst (test_usd_checker cfg0 always_convert two_errors_checker (known_loads [entry_short_name])
            (baseline_world entry_short_name) ''fbx'' cube)
       = [(WARNING, ''No baseline found for /r/test/assets/fbx/cube.fbx.'')]
   \<and> fst (snd (test_usd_checker cfg0 always_convert two_errors_checker
                  (known_loads [entry_short_name]) (baseline_world entry_short_name) ''fbx'' cube))
       = Inr NoBaseline"
  by code_simp

section \<open>The round trip in verify mode\<close>

lemma matching_with_itself: "length (filter (\<lambda>(x, y). x = y) (zip xs xs)) = length xs"
  by (induction xs) auto

lemma similarity_ratio_self:
  assumes "image_ok img" and "shape img = (h, w, c)" and "0 < h * w * c"
  shows "similarity_ratio img img = Inr 1"
proof -
  have "length (buf img) = h * w * c"
    using assms(1,2) by (simp add: image_ok_def)
  then show ?thesis
    using assms(3) similarity_ratio_eq [OF assms(1) assms(1) assms(2) assms(2) assms(3)]
    by (simp add: matching_with_itself concrete_doubles)
qed

lemma compare_same_path:
  "compare_images_with_similarity_threshold imread p p t
     = (case imread p of
          None \<Rightarrow> Inl (ValueError ''One or both images could not be loaded.'')
        | Some img \<Rightarrow>
            (case similarity_ratio img img of Inl e \<Rightarrow> Inl e | Inr r \<Rightarrow> Inr (t \<le> r)))"
  by (simp add: compare_images_with_similarity_threshold_def split: option.splits)

lemma process_file_roundtrip:
  assumes "plugin_name \<noteq> ''sbsar''"
    and "path_relpath (cwd cfg) (path_dirname test_file) (path_join2 (ASSET_PATH cfg) plugin_name)
           = Inr relative_root"
    and "w2 = render (roundtrip_converted_path cfg plugin_name relative_root test_file)
                (roundtrip_output_path cfg plugin_name relative_root test_file)
                (snd (convert test_file
                        (roundtrip_converted_path cfg plugin_name relative_root test_file) w))"
  shows "process_file cfg render convert w plugin_name test_file False ''roundtrip''
           = (case compare_images_with_similarity_threshold (pictures w2)
                     (roundtrip_output_path cfg plugin_name relative_root test_file)
                     (roundtrip_output_path cfg plugin_name relative_root test_file)
                     default_similarity_threshold of
                Inl e \<Rightarrow> Inl e
              | Inr similar \<Rightarrow>
                  if \<not> similar
                  then Inr (''Error with roundtrip converted file: '' @ test_file, w2)
                  else Inr (''Converted: '' @ test_file, w2))"
  unfolding assms(3) process_file_def roundtrip_converted_path_def roundtrip_output_path_def
    roundtrip_folder_def
  using assms(1,2) by (simp add: Let_def case_prod_beta)

text \<open>
  Claim C9: in verify mode, for a round trip of a plugin other than \<^verbatim>\<open>sbsar\<close> and a test
  file with a directory part, \<^verbatim>\<open>process_file\<close> gives the image comparison the path of
  the freshly rendered round-trip image as both arguments. The outcome depends on the
  image at that one path only, which lies in the output folder, and the comparison passes
  whenever that file decodes to an image with at least one sample.
\<close>

theorem roundtrip_compares_render_with_itself:
  assumes "plugin_name \<noteq> ''sbsar''"
    and "path_relpath (cwd cfg) (path_dirname test_file) (path_join2 (ASSET_PATH cfg) plugin_name)
           = Inr relative_root"
    and "w2 = render (roundtrip_converted_path cfg plugin_name relative_root test_file)
                (roundtrip_output_path cfg plugin_name relative_root test_file)
                (snd (convert test_file
                        (roundtrip_converted_path cfg plugin_name relative_root test_file) w))"
    and "p = roundtrip_output_path cfg plugin_name relative_root test_file"
  shows "process_file cfg render convert w plugin_name test_file False ''roundtrip''
           = (case compare_images_with_similarity_threshold (pictures w2) p p
                     default_similarity_threshold of
                Inl e \<Rightarrow> Inl e
              | Inr similar \<Rightarrow>
                  if \<not> similar
                  then Inr (''Error with roundtrip converted file: '' @ test_file, w2)
                  else Inr (''Converted: '' @ test_file, w2))
         \<and> process_file cfg render convert w plugin_name test_file False ''roundtrip''
           = (case pictures w2 p of
                None \<Rightarrow> Inl (ValueError ''One or both images could not be loaded.'')
              | Some img \<Rightarrow>
                  (case similarity_ratio img img of
                     Inl e \<Rightarrow> Inl e
                   | Inr r \<Rightarrow>
                       if default_similarity_threshold \<le> r
                       then Inr (''Converted: '' @ test_file, w2)
                       else Inr (''Error with roundtrip converted file: '' @ test_file, w2)))
         \<and> (pictures w2 p = Some img \<and> image_ok img \<and> shape img = (h, wd, c) \<and> 0 < h * wd * c
              \<longrightarrow> process_file cfg render convert w plugin_name test_file False ''roundtrip''
                    = Inr (''Converted: '' @ test_file, w2))"
proof -
  have 1: "process_file cfg render convert w plugin_name test_file False ''roundtrip''
           = (case compare_images_with_similarity_threshold (pictures w2) p p
                     default_similarity_threshold of
                Inl e \<Rightarrow> Inl e
              | Inr similar \<Rightarrow>
                  if \<not> similar
                  then Inr (''Error with roundtrip converted file: '' @ test_file, w2)
                  else Inr (''Converted: '' @ test_file, w2))"
    unfolding assms(4) using assms(1-3) by (rule process_file_roundtrip)
  have 2: "process_file cfg render convert w plugin_name test_file False ''roundtrip''
           = (case pictures w2 p of
                None \<Rightarrow> Inl (ValueError ''One or both images could not be loaded.'')
              | Some img \<Rightarrow>
                  (case similarity_ratio img img of
                     Inl e \<Rightarrow> Inl e
                   | Inr r \<Rightarrow>
                       if default_similarity_threshold \<le> r
                       then Inr (''Converted: '' @ test_file, w2)
                       else Inr (''Error with roundtrip converted file: '' @ test_file, w2)))"
    unfolding 1 compare_same_path by (simp split: option.splits sum.splits)
  have 3: "process_file cfg render convert w plugin_name test_file False ''roundtrip''
             = Inr (''Converted: '' @ test_file, w2)"
    if "pictures w2 p = Some img \<and> image_ok img \<and> shape img = (h, wd, c) \<and> 0 < h * wd * c"
    using that similarity_ratio_self [of img h wd c]
    unfolding 2 by (simp add: default_similarity_threshold_def concrete_doubles)
  from 1 2 3 show ?thesis by blast
qed

lemma cube_relpath:
  "path_relpath (cwd cfg0) (path_dirname cube) (path_join2 (ASSET_PATH cfg0) ''fbx'') = Inr ''.''"
  by code_simp

theorem roundtrip_compares_render_with_itself_witness:
  "map_sum id fst (process_file cfg0 paint_render always_convert quiet_world ''fbx'' cube False
                     ''roundtrip'')
     = Inr ''Converted: /r/test/assets/fbx/cube.fbx''"
proof -
  let ?w2 = "paint_render (roundtrip_converted_path cfg0 ''fbx'' ''.'' cube)
               (roundtrip_output_path cfg0 ''fbx'' ''.'' cube)
               (snd (always_convert cube (roundtrip_converted_path cfg0 ''fbx'' ''.'' cube)
                       quiet_world))"
  have n: "''fbx'' \<noteq> ''sbsar''" by simp
  have i: "pictures ?w2 (roundtrip_output_path cfg0 ''fbx'' ''.'' cube) = Some tiny_img"
    by (simp add: paint_render_def)
  have k: "image_ok tiny_img" "shape tiny_img = (1, 1, 3)" "(0::nat) < 1 * 1 * 3"
    by (simp_all add: tiny_img_def image_ok_def)
  from roundtrip_compares_render_with_itself [where render = paint_render
      and convert = always_convert and w = quiet_world and img = tiny_img and h = 1 and wd = 1
      and c = 3, OF n cube_relpath refl refl] i k
  have "process_file cfg0 paint_render always_convert quiet_world ''fbx'' cube False ''roundtrip''
          = Inr (''Converted: '' @ cube, ?w2)"
    by blast
  then show ?thesis
    by (simp add: cube_def)
qed

end
